theory Spec2Isabelle
  imports Complex_Main "HOL-Library.Word"
begin

section \<open>The tensor substrate\<close>

text \<open>
  The notebook \<^verbatim>\<open>transformer.ipynb\<close> computes on \<^verbatim>\<open>torch.Tensor\<close> values. A
  tensor is modelled as the library stores a contiguous one: its shape and its elements
  in row-major order. Elements of floating-point tensors are modelled as real numbers, so
  every statement about values is a statement of exact arithmetic; where the floating-point
  code would divide by zero (and produce NaN or an infinity) the theorems below carry a
  hypothesis that excludes the case, and the theorem on the rows of the attention weights
  bounds the inputs so that no score overflows.

  The operations of this section are the library calls the notebook makes
  (\<^verbatim>\<open>torch.matmul\<close>, \<^verbatim>\<open>softmax\<close>, broadcasting arithmetic, \<^verbatim>\<open>view\<close>, ...). Each
  raises where the library raises: errors are values of \<open>error + 'a\<close>.
\<close>

datatype error = IndexError | RuntimeError | AssertionError | ZeroDivisionError | ValueError

definition bind_e :: "error + 'a \<Rightarrow> ('a \<Rightarrow> error + 'b) \<Rightarrow> error + 'b" where
  "bind_e m f = (case m of Inl e \<Rightarrow> Inl e | Inr a \<Rightarrow> f a)"

record 'a tensor =
  shape :: "nat list"
  data :: "'a list"

definition well_formed :: "'a tensor \<Rightarrow> bool" where
  "well_formed t = (length (data t) = prod_list (shape t))"

text \<open>Row-major addressing: \<open>ravel\<close> maps a multi-index to its offset, \<open>unravel\<close> back.\<close>

fun ravel :: "nat list \<Rightarrow> nat list \<Rightarrow> nat" where
  "ravel (d # ds) (i # js) = i * prod_list ds + ravel ds js"
| "ravel _ _ = 0"

fun unravel :: "nat list \<Rightarrow> nat \<Rightarrow> nat list" where
  "unravel [] n = []"
| "unravel (d # ds) n = (n div prod_list ds) # unravel ds (n mod prod_list ds)"

definition valid_index :: "nat list \<Rightarrow> nat list \<Rightarrow> bool" where
  "valid_index sh idx = list_all2 (<) idx sh"

definition elem :: "'a tensor \<Rightarrow> nat list \<Rightarrow> 'a" where
  "elem t idx = data t ! ravel (shape t) idx"

definition tabulate :: "nat list \<Rightarrow> (nat list \<Rightarrow> 'a) \<Rightarrow> 'a tensor" where
  "tabulate sh f = \<lparr>shape = sh, data = map (\<lambda>n. f (unravel sh n)) [0..<prod_list sh]\<rparr>"

definition tmap :: "('a \<Rightarrow> 'b) \<Rightarrow> 'a tensor \<Rightarrow> 'b tensor" where
  "tmap f t = \<lparr>shape = shape t, data = map f (data t)\<rparr>"

text \<open>
  A tensor with at least two axes, given by its entries: \<open>g pre i j\<close> is the entry in row
  \<open>i\<close> and column \<open>j\<close> of the matrix at the leading coordinates \<open>pre\<close>.
\<close>

definition tab2 :: "nat list \<Rightarrow> nat \<Rightarrow> nat \<Rightarrow> (nat list \<Rightarrow> nat \<Rightarrow> nat \<Rightarrow> 'a) \<Rightarrow> 'a tensor" where
  "tab2 bs n m g =
     tabulate (bs @ [n, m]) (\<lambda>idx. g (butlast (butlast idx)) (last (butlast idx)) (last idx))"

text \<open>Python's dimension arguments: a negative dimension counts from the last axis.\<close>

definition norm_dim :: "nat \<Rightarrow> int \<Rightarrow> error + nat" where
  "norm_dim r d =
     (let d' = (if d < 0 then d + int r else d)
      in if 0 \<le> d' \<and> d' < int r then Inr (nat d') else Inl IndexError)"

definition size_dim :: "'a tensor \<Rightarrow> int \<Rightarrow> error + nat" where
  "size_dim t d = bind_e (norm_dim (length (shape t)) d) (\<lambda>k. Inr (shape t ! k))"

subsection \<open>Creation and elementwise conversions\<close>

definition ones :: "int list \<Rightarrow> error + real tensor" where
  "ones sh = (if \<exists>d \<in> set sh. d < 0 then Inl RuntimeError
              else Inr (tabulate (map nat sh) (\<lambda>_. 1)))"

definition triu :: "real tensor \<Rightarrow> int \<Rightarrow> error + real tensor" where
  "triu t diagonal =
     (if length (shape t) < 2 then Inl RuntimeError
      else Inr (tabulate (shape t)
        (\<lambda>idx. let r = length idx; i = idx ! (r - 2); j = idx ! (r - 1)
               in if diagonal \<le> int j - int i then elem t idx else 0)))"

definition to_uint8 :: "real \<Rightarrow> 8 word" where
  "to_uint8 x = word_of_int (if 0 \<le> x then \<lfloor>x\<rfloor> else \<lceil>x\<rceil>)"

definition type_uint8 :: "real tensor \<Rightarrow> 8 word tensor" where
  "type_uint8 t = tmap to_uint8 t"

definition eq_scalar :: "'a tensor \<Rightarrow> 'a \<Rightarrow> bool tensor" where
  "eq_scalar t c = tmap (\<lambda>x. x = c) t"

definition relu :: "real tensor \<Rightarrow> real tensor" where
  "relu t = tmap (max 0) t"

definition add_scalar :: "real tensor \<Rightarrow> real \<Rightarrow> real tensor" where
  "add_scalar t c = tmap (\<lambda>x. x + c) t"

definition mul_scalar :: "real tensor \<Rightarrow> real \<Rightarrow> real tensor" where
  "mul_scalar t c = tmap (\<lambda>x. x * c) t"

definition div_scalar :: "real tensor \<Rightarrow> real \<Rightarrow> real tensor" where
  "div_scalar t c = tmap (\<lambda>x. x / c) t"

subsection \<open>Broadcasting\<close>

text \<open>
  Two shapes are aligned at their last axes; two sizes are compatible when they are equal or
  one of them is 1, and the result takes the other. \<open>broadcast_rev\<close> works on the reversed
  shapes.
\<close>

fun broadcast_rev :: "nat list \<Rightarrow> nat list \<Rightarrow> nat list option" where
  "broadcast_rev [] ys = Some ys"
| "broadcast_rev xs [] = Some xs"
| "broadcast_rev (x # xs) (y # ys) =
     (if x = y \<or> y = 1 then map_option ((#) x) (broadcast_rev xs ys)
      else if x = 1 then map_option ((#) y) (broadcast_rev xs ys)
      else None)"

definition broadcast_shapes :: "nat list \<Rightarrow> nat list \<Rightarrow> nat list option" where
  "broadcast_shapes a b = map_option rev (broadcast_rev (rev a) (rev b))"

text \<open>
  The index at which an operand of shape \<open>sh\<close> is read for the index \<open>idx\<close> of the
  broadcast result: leading axes the operand lacks are dropped, an axis of size 1 is read
  at 0.
\<close>

definition bidx :: "nat list \<Rightarrow> nat list \<Rightarrow> nat list" where
  "bidx sh idx = map2 (\<lambda>d i. if d = 1 then 0 else i) sh (drop (length idx - length sh) idx)"

definition broadcast_op ::
  "('a \<Rightarrow> 'b \<Rightarrow> 'c) \<Rightarrow> 'a tensor \<Rightarrow> 'b tensor \<Rightarrow> error + 'c tensor" where
  "broadcast_op f a b =
     (case broadcast_shapes (shape a) (shape b) of
        None \<Rightarrow> Inl RuntimeError
      | Some sh \<Rightarrow> Inr (tabulate sh
          (\<lambda>idx. f (elem a (bidx (shape a) idx)) (elem b (bidx (shape b) idx)))))"

definition add :: "real tensor \<Rightarrow> real tensor \<Rightarrow> error + real tensor" where
  "add a b = broadcast_op (+) a b"

definition sub :: "real tensor \<Rightarrow> real tensor \<Rightarrow> error + real tensor" where
  "sub a b = broadcast_op (-) a b"

definition mul :: "real tensor \<Rightarrow> real tensor \<Rightarrow> error + real tensor" where
  "mul a b = broadcast_op (*) a b"

definition divide_t :: "real tensor \<Rightarrow> real tensor \<Rightarrow> error + real tensor" where
  "divide_t a b = broadcast_op (/) a b"

definition masked_fill :: "real tensor \<Rightarrow> bool tensor \<Rightarrow> real \<Rightarrow> error + real tensor" where
  "masked_fill t m v = broadcast_op (\<lambda>x b. if b then v else x) t m"

subsection \<open>Views\<close>

definition transpose_t :: "'a tensor \<Rightarrow> int \<Rightarrow> int \<Rightarrow> error + 'a tensor" where
  "transpose_t t dim0 dim1 =
     bind_e (norm_dim (length (shape t)) dim0) (\<lambda>i.
     bind_e (norm_dim (length (shape t)) dim1) (\<lambda>j.
     Inr (tabulate ((shape t)[i := shape t ! j, j := shape t ! i])
            (\<lambda>idx. elem t (idx[i := idx ! j, j := idx ! i])))))"

definition unsqueeze :: "'a tensor \<Rightarrow> nat \<Rightarrow> error + 'a tensor" where
  "unsqueeze t k =
     (if length (shape t) < k then Inl IndexError
      else Inr (t\<lparr>shape := take k (shape t) @ [1] @ drop k (shape t)\<rparr>))"

text \<open>
  \<^verbatim>\<open>view\<close> keeps the elements and changes the shape; one size may be \<^verbatim>\<open>-1\<close> and is
  then inferred from the number of elements.
\<close>

definition view :: "'a tensor \<Rightarrow> int list \<Rightarrow> error + 'a tensor" where
  "view t dims =
     (let n = int (length (data t));
          known = prod_list (filter (\<lambda>d. d \<noteq> - 1) dims)
      in if (\<exists>d \<in> set dims. d < - 1) \<or> 1 < length (filter (\<lambda>d. d = - 1) dims)
         then Inl RuntimeError
         else if - 1 \<in> set dims
         then (if known = 0 \<or> n mod known \<noteq> 0 then Inl RuntimeError
               else Inr (t\<lparr>shape := map (\<lambda>d. nat (if d = - 1 then n div known else d)) dims\<rparr>))
         else if known \<noteq> n then Inl RuntimeError
         else Inr (t\<lparr>shape := map nat dims\<rparr>))"

text \<open>The slice \<^verbatim>\<open>t[:, :n]\<close>: the first \<open>n\<close> entries (or all, if fewer) along axis 1.\<close>

definition slice_dim1 :: "'a tensor \<Rightarrow> nat \<Rightarrow> error + 'a tensor" where
  "slice_dim1 t n =
     (if length (shape t) < 2 then Inl IndexError
      else Inr (tabulate ((shape t)[1 := min n (shape t ! 1)]) (elem t)))"

subsection \<open>Reductions over the last axis\<close>

text \<open>
  \<open>lane t idx\<close> lists the elements that share the leading coordinates of \<open>idx\<close> and
  differ in the last one. A tensor without axes is its own single lane.
\<close>

definition lane :: "'a tensor \<Rightarrow> nat list \<Rightarrow> 'a list" where
  "lane t idx =
     (if shape t = [] then [elem t []]
      else map (\<lambda>j. elem t (butlast idx @ [j])) [0..<last (shape t)])"

definition keepdim_shape :: "nat list \<Rightarrow> nat list" where
  "keepdim_shape sh = (if sh = [] then [] else butlast sh @ [1])"

definition mean_list :: "real list \<Rightarrow> real" where
  "mean_list xs = sum_list xs / real (length xs)"

text \<open>The sample standard deviation (Bessel's correction), the default of \<^verbatim>\<open>Tensor.std\<close>.\<close>

definition std_list :: "real list \<Rightarrow> real" where
  "std_list xs =
     sqrt (sum_list (map (\<lambda>x. (x - mean_list xs)\<^sup>2) xs) / (real (length xs) - 1))"

definition mean_keepdim :: "real tensor \<Rightarrow> real tensor" where
  "mean_keepdim t = tabulate (keepdim_shape (shape t)) (\<lambda>idx. mean_list (lane t idx))"

definition std_keepdim :: "real tensor \<Rightarrow> real tensor" where
  "std_keepdim t = tabulate (keepdim_shape (shape t)) (\<lambda>idx. std_list (lane t idx))"

definition softmax_last :: "real tensor \<Rightarrow> real tensor" where
  "softmax_last t =
     tabulate (shape t) (\<lambda>idx. exp (elem t idx) / sum_list (map exp (lane t idx)))"

definition log_softmax_last :: "real tensor \<Rightarrow> real tensor" where
  "log_softmax_last t =
     tabulate (shape t) (\<lambda>idx. elem t idx - ln (sum_list (map exp (lane t idx))))"

subsection \<open>Matrix product\<close>

text \<open>
  \<^verbatim>\<open>torch.matmul\<close>: the last two axes are multiplied as matrices and the leading axes are
  broadcast. An operand with one axis is given a second one of size 1 (in front for the
  left operand, behind for the right one), which is removed from the result.
\<close>

definition matmul :: "real tensor \<Rightarrow> real tensor \<Rightarrow> error + real tensor" where
  "matmul a b =
     (let ra = length (shape a); rb = length (shape b)
      in if ra = 0 \<or> rb = 0 then Inl RuntimeError
         else
           let sa = (if ra = 1 then 1 # shape a else shape a);
               sb = (if rb = 1 then shape b @ [1] else shape b);
               ba = butlast (butlast sa); bb = butlast (butlast sb);
               n = last (butlast sa); k = last sa;
               k' = last (butlast sb); m = last sb
           in if k \<noteq> k' then Inl RuntimeError
              else case broadcast_shapes ba bb of
                None \<Rightarrow> Inl RuntimeError
              | Some bs \<Rightarrow>
                  let a' = a\<lparr>shape := sa\<rparr>; b' = b\<lparr>shape := sb\<rparr>;
                      full = tabulate (bs @ [n, m])
                        (\<lambda>idx. let pre = butlast (butlast idx);
                                   i = last (butlast idx); j = last idx
                               in sum_list (map (\<lambda>t. elem a' (bidx ba pre @ [i, t])
                                                     * elem b' (bidx bb pre @ [t, j])) [0..<k]))
                  in Inr (full\<lparr>shape := bs @ (if ra = 1 then [] else [n])
                                             @ (if rb = 1 then [] else [m])\<rparr>))"

subsection \<open>Library modules: linear layer, dropout, embedding table\<close>

record Linear =
  weight :: "real tensor"
  bias :: "real tensor"

text \<open>\<^verbatim>\<open>nn.Linear\<close> computes \<open>x \<cdot> weight\<^sup>T + bias\<close>.\<close>

definition Linear_forward :: "Linear \<Rightarrow> real tensor \<Rightarrow> error + real tensor" where
  "Linear_forward l x =
     bind_e (transpose_t (weight l) 0 1) (\<lambda>wt.
     bind_e (matmul x wt) (\<lambda>y.
     add y (bias l)))"

text \<open>
  \<^verbatim>\<open>nn.Dropout\<close>: in training mode each element is zeroed with probability \<open>p\<close> and the
  others are scaled by \<open>1 / (1 - p)\<close>; in evaluation mode it is the identity. The random
  draw of a call is the field \<open>keep\<close>: the element at an index survives iff \<open>keep\<close> holds
  there.
\<close>

record Dropout =
  p_drop :: real
  training :: bool
  keep :: "nat list \<Rightarrow> bool"

definition Dropout_init :: "real \<Rightarrow> (nat list \<Rightarrow> bool) \<Rightarrow> error + Dropout" where
  "Dropout_init p kp =
     (if p < 0 \<or> 1 < p then Inl ValueError
      else Inr \<lparr>p_drop = p, training = True, keep = kp\<rparr>)"

definition Dropout_forward :: "Dropout \<Rightarrow> real tensor \<Rightarrow> real tensor" where
  "Dropout_forward d x =
     (if training d \<and> 0 < p_drop d
      then (if p_drop d = 1 then tmap (\<lambda>_. 0) x
            else tabulate (shape x)
                   (\<lambda>idx. if keep d idx then elem x idx / (1 - p_drop d) else 0))
      else x)"

text \<open>\<^verbatim>\<open>nn.Embedding\<close>: row \<open>i\<close> of the table for the token id \<open>i\<close>.\<close>

definition embedding :: "real tensor \<Rightarrow> int tensor \<Rightarrow> error + real tensor" where
  "embedding w x =
     (if \<exists>i \<in> set (data x). i < 0 \<or> int (hd (shape w)) \<le> i then Inl IndexError
      else Inr (tabulate (shape x @ [last (shape w)])
                  (\<lambda>idx. elem w [nat (elem x (butlast idx)), last idx])))"

text \<open>\<^verbatim>\<open>clones\<close>: \<open>N\<close> deep copies of a module, which as values are \<open>N\<close> equal values.\<close>

definition clones :: "'m \<Rightarrow> nat \<Rightarrow> 'm list" where
  "clones mdl N = replicate N mdl"

definition nth_e :: "'a list \<Rightarrow> nat \<Rightarrow> error + 'a" where
  "nth_e xs i = (if i < length xs then Inr (xs ! i) else Inl IndexError)"

definition last_e :: "'a list \<Rightarrow> error + 'a" where
  "last_e xs = (if xs = [] then Inl IndexError else Inr (last xs))"

fun map_e :: "('a \<Rightarrow> error + 'b) \<Rightarrow> 'a list \<Rightarrow> error + 'b list" where
  "map_e f [] = Inr []"
| "map_e f (x # xs) = bind_e (f x) (\<lambda>y. bind_e (map_e f xs) (\<lambda>ys. Inr (y # ys)))"

section \<open>The causal mask\<close>

text \<open>
  \<^verbatim>\<open>
  def subsequent_mask(size):
      attn_shape = (1, size, size)
      subsequent_mask = torch.triu(torch.ones(attn_shape), diagonal=1).type(torch.uint8)
      return subsequent_mask == 0
  \<close>
\<close>

definition subsequent_mask :: "int \<Rightarrow> error + bool tensor" where
  "subsequent_mask sz =
     (let attn_shape = [1, sz, sz]
      in bind_e (ones attn_shape) (\<lambda>o1.
         bind_e (triu o1 1) (\<lambda>u.
         Inr (eq_scalar (type_uint8 u) 0))))"

section \<open>Scaled dot-product attention\<close>

text \<open>
  \<^verbatim>\<open>
  def attention(query, key, value, mask=None, dropout=None):
      d_k = query.size(-1)
      scores = torch.matmul(query, key.transpose(-2, -1)) / math.sqrt(d_k)
      if mask is not None:
          scores = scores.masked_fill(mask == 0, -1e9)
      p_attn = scores.softmax(dim=-1)
      if dropout is not None:
          p_attn = dropout(p_attn)
      return torch.matmul(p_attn, value), p_attn
  \<close>
  \<open>attention_scores\<close> is the value of the variable \<^verbatim>\<open>scores\<close> when the softmax is taken.
\<close>

definition attention_scores ::
  "real tensor \<Rightarrow> real tensor \<Rightarrow> bool tensor option \<Rightarrow> error + real tensor" where
  "attention_scores query key msk =
     bind_e (size_dim query (- 1)) (\<lambda>d_k.
     bind_e (transpose_t key (- 2) (- 1)) (\<lambda>kt.
     bind_e (matmul query kt) (\<lambda>qk.
     let scores = div_scalar qk (sqrt (real d_k))
     in case msk of
          None \<Rightarrow> Inr scores
        | Some mk \<Rightarrow> masked_fill scores (eq_scalar mk False) (- 1000000000))))"

definition attention ::
  "real tensor \<Rightarrow> real tensor \<Rightarrow> real tensor \<Rightarrow> bool tensor option \<Rightarrow> Dropout option
     \<Rightarrow> error + real tensor \<times> real tensor" where
  "attention query key value msk dropout =
     bind_e (attention_scores query key msk) (\<lambda>scores.
     let p_attn = softmax_last scores;
         p_attn = (case dropout of None \<Rightarrow> p_attn | Some d \<Rightarrow> Dropout_forward d p_attn)
     in bind_e (matmul p_attn value) (\<lambda>out. Inr (out, p_attn)))"


section \<open>Multi-head attention\<close>

text \<open>
  Every class of the notebook is a record of its attributes. An attribute keeps its name;
  where several classes use the same name (\<^verbatim>\<open>dropout\<close>, \<^verbatim>\<open>norm\<close>, \<^verbatim>\<open>layers\<close>, ...) or the
  name is too short to be a constant (\<^verbatim>\<open>h\<close>), the field carries the class as a prefix:
  \<open>mha_h\<close> is \<^verbatim>\<open>self.h\<close> and \<open>mha_dropout\<close> is \<^verbatim>\<open>self.dropout\<close> of
  \<^verbatim>\<open>MultiHeadedAttention\<close>.
\<close>

record MultiHeadedAttention =
  d_k :: nat
  mha_h :: nat
  linears :: "Linear list"
  attn :: "real tensor option"
  mha_dropout :: Dropout

text \<open>
  \<^verbatim>\<open>
  def __init__(self, h, d_model, dropout=0.1):
      assert d_model % h == 0
      self.d_k = d_model // h
      self.h = h
      self.linears = clones(nn.Linear(d_model, d_model), 4)
      self.attn = None
      self.dropout = nn.Dropout(p=dropout)
  \<close>
  The sizes are natural numbers. \<open>lin\<close> is the freshly initialised \<^verbatim>\<open>nn.Linear(d_model,
  d_model)\<close> and \<open>kp\<close> the random draw of the dropout module; the default of \<^verbatim>\<open>dropout\<close>
  is written \<open>None\<close>.
\<close>

definition MultiHeadedAttention_init ::
  "nat \<Rightarrow> nat \<Rightarrow> real option \<Rightarrow> Linear \<Rightarrow> (nat list \<Rightarrow> bool) \<Rightarrow> error + MultiHeadedAttention" where
  "MultiHeadedAttention_init h d_model dropout lin kp =
     (if h = 0 then Inl ZeroDivisionError
      else if d_model mod h \<noteq> 0 then Inl AssertionError
      else bind_e (Dropout_init (case dropout of None \<Rightarrow> 1 / 10 | Some p \<Rightarrow> p) kp) (\<lambda>d.
           Inr \<lparr>d_k = d_model div h, mha_h = h, linears = clones lin 4, attn = None,
                mha_dropout = d\<rparr>))"

text \<open>
  \<^verbatim>\<open>
  def forward(self, query, key, value, mask=None):
      if mask is not None:
          mask = mask.unsqueeze(1)
      nbatches = query.size(0)
      query, key, value = [
          lin(x).view(nbatches, -1, self.h, self.d_k).transpose(1, 2)
          for lin, x in zip(self.linears, (query, key, value))
      ]
      x, self.attn = attention(query, key, value, mask=mask, dropout=self.dropout)
      x = x.transpose(1, 2).contiguous().view(nbatches, -1, self.h * self.d_k)
      return self.linears[-1](x)
  \<close>
  The method assigns \<^verbatim>\<open>self.attn\<close>, so the model returns the module as well; an exception
  raised after the assignment leaves the assignment in place.
\<close>

definition split_heads ::
  "MultiHeadedAttention \<Rightarrow> nat \<Rightarrow> Linear \<times> real tensor \<Rightarrow> error + real tensor" where
  "split_heads m nbatches = (\<lambda>(lin, x).
     bind_e (Linear_forward lin x) (\<lambda>y.
     bind_e (view y [int nbatches, - 1, int (mha_h m), int (d_k m)]) (\<lambda>v.
     transpose_t v 1 2)))"

definition MultiHeadedAttention_forward ::
  "MultiHeadedAttention \<Rightarrow> real tensor \<Rightarrow> real tensor \<Rightarrow> real tensor \<Rightarrow> bool tensor option
     \<Rightarrow> MultiHeadedAttention \<times> (error + real tensor)" where
  "MultiHeadedAttention_forward m query key value msk =
     (case (case msk of None \<Rightarrow> Inr None
                       | Some mk \<Rightarrow> bind_e (unsqueeze mk 1) (\<lambda>u. Inr (Some u))) of
        Inl e \<Rightarrow> (m, Inl e)
      | Inr msk' \<Rightarrow>
     (case size_dim query 0 of
        Inl e \<Rightarrow> (m, Inl e)
      | Inr nbatches \<Rightarrow>
     (case map_e (split_heads m nbatches) (zip (linears m) [query, key, value]) of
        Inl e \<Rightarrow> (m, Inl e)
      | Inr [q, k, v] \<Rightarrow>
         (case attention q k v msk' (Some (mha_dropout m)) of
            Inl e \<Rightarrow> (m, Inl e)
          | Inr (x, p_attn) \<Rightarrow>
              (m\<lparr>attn := Some p_attn\<rparr>,
               bind_e (transpose_t x 1 2) (\<lambda>xt.
               bind_e (view xt [int nbatches, - 1, int (mha_h m * d_k m)]) (\<lambda>xv.
               bind_e (last_e (linears m)) (\<lambda>l.
               Linear_forward l xv)))))
      | Inr _ \<Rightarrow> (m, Inl ValueError))))"

section \<open>Feed-forward network and layer normalisation\<close>

record PositionwiseFeedForward =
  w_1 :: Linear
  w_2 :: Linear
  ff_dropout :: Dropout

text \<open>\<^verbatim>\<open>return self.w_2(self.dropout(self.w_1(x).relu()))\<close>\<close>

definition PositionwiseFeedForward_forward ::
  "PositionwiseFeedForward \<Rightarrow> real tensor \<Rightarrow> error + real tensor" where
  "PositionwiseFeedForward_forward ff x =
     bind_e (Linear_forward (w_1 ff) x) (\<lambda>y.
     Linear_forward (w_2 ff) (Dropout_forward (ff_dropout ff) (relu y)))"

record LayerNorm =
  a_2 :: "real tensor"
  b_2 :: "real tensor"
  eps :: real

text \<open>
  \<^verbatim>\<open>
  def __init__(self, features, eps=1e-6):
      self.a_2 = nn.Parameter(torch.ones(features))
      self.b_2 = nn.Parameter(torch.zeros(features))
      self.eps = eps
  \<close>
  The default of \<^verbatim>\<open>eps\<close> is written \<open>None\<close>. The size \<open>features\<close> is a natural number,
  for which \<^verbatim>\<open>torch.ones\<close> and \<^verbatim>\<open>torch.zeros\<close> cannot raise.
\<close>

definition LayerNorm_init :: "nat \<Rightarrow> real option \<Rightarrow> LayerNorm" where
  "LayerNorm_init features e =
     \<lparr>a_2 = tabulate [features] (\<lambda>_. 1), b_2 = tabulate [features] (\<lambda>_. 0),
      eps = (case e of None \<Rightarrow> 1 / 1000000 | Some v \<Rightarrow> v)\<rparr>"

text \<open>
  \<^verbatim>\<open>
  def forward(self, x):
      mean = x.mean(-1, keepdim=True)
      std = x.std(-1, keepdim=True)
      return self.a_2 * (x - mean) / (std + self.eps) + self.b_2
  \<close>
\<close>

definition LayerNorm_forward :: "LayerNorm \<Rightarrow> real tensor \<Rightarrow> error + real tensor" where
  "LayerNorm_forward lnm x =
     (let mean = mean_keepdim x;
          std = std_keepdim x
      in bind_e (sub x mean) (\<lambda>centred.
         bind_e (mul (a_2 lnm) centred) (\<lambda>scaled.
         bind_e (divide_t scaled (add_scalar std (eps lnm))) (\<lambda>normed.
         add normed (b_2 lnm)))))"

section \<open>Sublayer connection, layers and stacks\<close>

record SublayerConnection =
  sc_norm :: LayerNorm
  sc_dropout :: Dropout

text \<open>
  \<^verbatim>\<open>
  def forward(self, x, sublayer):
      return x + self.dropout(sublayer(self.norm(x)))
  \<close>
  The sublayer is a closure of the caller; the ones that call an attention module change
  that module's \<^verbatim>\<open>attn\<close>. The closure is therefore a function on the state \<open>'s\<close> it captures.
\<close>

definition SublayerConnection_forward ::
  "SublayerConnection \<Rightarrow> real tensor \<Rightarrow> (real tensor \<Rightarrow> 's \<Rightarrow> 's \<times> (error + real tensor))
     \<Rightarrow> 's \<Rightarrow> 's \<times> (error + real tensor)" where
  "SublayerConnection_forward sc x sublayer s =
     (case LayerNorm_forward (sc_norm sc) x of
        Inl e \<Rightarrow> (s, Inl e)
      | Inr n \<Rightarrow>
         (case sublayer n s of
            (s', Inl e) \<Rightarrow> (s', Inl e)
          | (s', Inr y) \<Rightarrow> (s', add x (Dropout_forward (sc_dropout sc) y))))"

record EncoderLayer =
  el_self_attn :: MultiHeadedAttention
  el_feed_forward :: PositionwiseFeedForward
  el_sublayer :: "SublayerConnection list"
  el_size :: nat

text \<open>
  \<^verbatim>\<open>
  def forward(self, x, mask):
      x = self.sublayer[0](x, lambda x: self.self_attn(x, x, x, mask))
      return self.sublayer[1](x, self.feed_forward)
  \<close>
\<close>

definition EncoderLayer_forward ::
  "EncoderLayer \<Rightarrow> real tensor \<Rightarrow> bool tensor option \<Rightarrow> EncoderLayer \<times> (error + real tensor)" where
  "EncoderLayer_forward l x msk =
     (case nth_e (el_sublayer l) 0 of
        Inl e \<Rightarrow> (l, Inl e)
      | Inr sc0 \<Rightarrow>
     (case SublayerConnection_forward sc0 x
             (\<lambda>x s. case MultiHeadedAttention_forward (el_self_attn s) x x x msk of
                      (a, r) \<Rightarrow> (s\<lparr>el_self_attn := a\<rparr>, r)) l of
        (l1, Inl e) \<Rightarrow> (l1, Inl e)
      | (l1, Inr x1) \<Rightarrow>
     (case nth_e (el_sublayer l1) 1 of
        Inl e \<Rightarrow> (l1, Inl e)
      | Inr sc1 \<Rightarrow>
         SublayerConnection_forward sc1 x1
           (\<lambda>x s. (s, PositionwiseFeedForward_forward (el_feed_forward s) x)) l1)))"

record Encoder =
  enc_layers :: "EncoderLayer list"
  enc_norm :: LayerNorm

text \<open>
  \<^verbatim>\<open>
  def forward(self, x, mask):
      for layer in self.layers:
          x = layer(x, mask)
      return self.norm(x)
  \<close>
\<close>

fun Encoder_layers ::
  "EncoderLayer list \<Rightarrow> real tensor \<Rightarrow> bool tensor option
     \<Rightarrow> EncoderLayer list \<times> (error + real tensor)" where
  "Encoder_layers [] x msk = ([], Inr x)"
| "Encoder_layers (layer # rest) x msk =
     (case EncoderLayer_forward layer x msk of
        (layer', Inl e) \<Rightarrow> (layer' # rest, Inl e)
      | (layer', Inr x') \<Rightarrow>
          (case Encoder_layers rest x' msk of (rest', r) \<Rightarrow> (layer' # rest', r)))"

definition Encoder_forward ::
  "Encoder \<Rightarrow> real tensor \<Rightarrow> bool tensor option \<Rightarrow> Encoder \<times> (error + real tensor)" where
  "Encoder_forward enc x msk =
     (case Encoder_layers (enc_layers enc) x msk of
        (ls, r) \<Rightarrow> (enc\<lparr>enc_layers := ls\<rparr>, bind_e r (LayerNorm_forward (enc_norm enc))))"

record DecoderLayer =
  dl_size :: nat
  dl_self_attn :: MultiHeadedAttention
  dl_src_attn :: MultiHeadedAttention
  dl_feed_forward :: PositionwiseFeedForward
  dl_sublayer :: "SublayerConnection list"

text \<open>
  \<^verbatim>\<open>
  def forward(self, x, memory, src_mask, tgt_mask):
      m = memory
      x = self.sublayer[0](x, lambda x: self.self_attn(x, x, x, tgt_mask))
      x = self.sublayer[1](x, lambda x: self.src_attn(x, m, m, src_mask))
      return self.sublayer[2](x, self.feed_forward)
  \<close>
\<close>

definition DecoderLayer_forward ::
  "DecoderLayer \<Rightarrow> real tensor \<Rightarrow> real tensor \<Rightarrow> bool tensor option \<Rightarrow> bool tensor option
     \<Rightarrow> DecoderLayer \<times> (error + real tensor)" where
  "DecoderLayer_forward l x memory src_mask tgt_mask =
     (let m = memory
      in case nth_e (dl_sublayer l) 0 of
        Inl e \<Rightarrow> (l, Inl e)
      | Inr sc0 \<Rightarrow>
     (case SublayerConnection_forward sc0 x
             (\<lambda>x s. case MultiHeadedAttention_forward (dl_self_attn s) x x x tgt_mask of
                      (a, r) \<Rightarrow> (s\<lparr>dl_self_attn := a\<rparr>, r)) l of
        (l1, Inl e) \<Rightarrow> (l1, Inl e)
      | (l1, Inr x1) \<Rightarrow>
     (case nth_e (dl_sublayer l1) 1 of
        Inl e \<Rightarrow> (l1, Inl e)
      | Inr sc1 \<Rightarrow>
     (case SublayerConnection_forward sc1 x1
             (\<lambda>x s. case MultiHeadedAttention_forward (dl_src_attn s) x m m src_mask of
                      (a, r) \<Rightarrow> (s\<lparr>dl_src_attn := a\<rparr>, r)) l1 of
        (l2, Inl e) \<Rightarrow> (l2, Inl e)
      | (l2, Inr x2) \<Rightarrow>
     (case nth_e (dl_sublayer l2) 2 of
        Inl e \<Rightarrow> (l2, Inl e)
      | Inr sc2 \<Rightarrow>
         SublayerConnection_forward sc2 x2
           (\<lambda>x s. (s, PositionwiseFeedForward_forward (dl_feed_forward s) x)) l2)))))"

record Decoder =
  dec_layers :: "DecoderLayer list"
  dec_norm :: LayerNorm

text \<open>
  \<^verbatim>\<open>
  def __init__(self, layer, N):
      self.layers = clones(layer, N)
      self.norm = LayerNorm(layer.size)

  def forward(self, x, memory, src_mask, tgt_mask):
      for layer in self.layers:
          x = layer(x, memory, src_mask, tgt_mask)
      return self.norm(x)
  \<close>
\<close>

definition Decoder_init :: "DecoderLayer \<Rightarrow> nat \<Rightarrow> Decoder" where
  "Decoder_init layer N =
     \<lparr>dec_layers = clones layer N, dec_norm = LayerNorm_init (dl_size layer) None\<rparr>"

fun Decoder_layers ::
  "DecoderLayer list \<Rightarrow> real tensor \<Rightarrow> real tensor \<Rightarrow> bool tensor option \<Rightarrow> bool tensor option
     \<Rightarrow> DecoderLayer list \<times> (error + real tensor)" where
  "Decoder_layers [] x memory src_mask tgt_mask = ([], Inr x)"
| "Decoder_layers (layer # rest) x memory src_mask tgt_mask =
     (case DecoderLayer_forward layer x memory src_mask tgt_mask of
        (layer', Inl e) \<Rightarrow> (layer' # rest, Inl e)
      | (layer', Inr x') \<Rightarrow>
          (case Decoder_layers rest x' memory src_mask tgt_mask of
             (rest', r) \<Rightarrow> (layer' # rest', r)))"

definition Decoder_forward ::
  "Decoder \<Rightarrow> real tensor \<Rightarrow> real tensor \<Rightarrow> bool tensor option \<Rightarrow> bool tensor option
     \<Rightarrow> Decoder \<times> (error + real tensor)" where
  "Decoder_forward dec x memory src_mask tgt_mask =
     (case Decoder_layers (dec_layers dec) x memory src_mask tgt_mask of
        (ls, r) \<Rightarrow> (dec\<lparr>dec_layers := ls\<rparr>, bind_e r (LayerNorm_forward (dec_norm dec))))"

section \<open>Embeddings, positional encoding, generator and the full model\<close>

record Embeddings =
  lut :: "real tensor"
  d_model :: nat

text \<open>\<^verbatim>\<open>return self.lut(x) * math.sqrt(self.d_model)\<close>\<close>

definition Embeddings_forward :: "Embeddings \<Rightarrow> int tensor \<Rightarrow> error + real tensor" where
  "Embeddings_forward emb x =
     bind_e (embedding (lut emb) x) (\<lambda>y. Inr (mul_scalar y (sqrt (real (d_model emb)))))"

text \<open>
  The table \<^verbatim>\<open>pe\<close> is the buffer registered by the constructor, of shape
  \<open>(1, max_len, d_model)\<close>.
  \<^verbatim>\<open>
  def forward(self, x):
      x = x + self.pe[:, : x.size(1)].requires_grad_(False)
      return self.dropout(x)
  \<close>
\<close>

record PositionalEncoding =
  pe_dropout :: Dropout
  pe :: "real tensor"

definition max_len :: "PositionalEncoding \<Rightarrow> nat" where
  "max_len pos = shape (pe pos) ! 1"

definition PositionalEncoding_forward ::
  "PositionalEncoding \<Rightarrow> real tensor \<Rightarrow> error + real tensor" where
  "PositionalEncoding_forward pos x =
     bind_e (size_dim x 1) (\<lambda>n.
     bind_e (slice_dim1 (pe pos) n) (\<lambda>tbl.
     bind_e (add x tbl) (\<lambda>x'.
     Inr (Dropout_forward (pe_dropout pos) x'))))"

record Generator =
  proj :: Linear

text \<open>\<^verbatim>\<open>return log_softmax(self.proj(x), dim=-1)\<close>\<close>

definition Generator_forward :: "Generator \<Rightarrow> real tensor \<Rightarrow> error + real tensor" where
  "Generator_forward g x = bind_e (Linear_forward (proj g) x) (\<lambda>y. Inr (log_softmax_last y))"

text \<open>
  \<^verbatim>\<open>make_model\<close> passes \<^verbatim>\<open>nn.Sequential(Embeddings(...), PositionalEncoding(...))\<close> for
  both embedding modules; the pair stands for that sequence.
  \<^verbatim>\<open>
  def forward(self, src, tgt, src_mask, tgt_mask):
      return self.decode(self.encode(src, src_mask), src_mask, tgt, tgt_mask)
  def encode(self, src, src_mask):
      return self.encoder(self.src_embed(src), src_mask)
  def decode(self, memory, src_mask, tgt, tgt_mask):
      return self.decoder(self.tgt_embed(tgt), memory, src_mask, tgt_mask)
  \<close>
\<close>

record EncoderDecoder =
  encoder :: Encoder
  decoder :: Decoder
  src_embed :: "Embeddings \<times> PositionalEncoding"
  tgt_embed :: "Embeddings \<times> PositionalEncoding"
  generator :: Generator

definition Sequential_forward ::
  "Embeddings \<times> PositionalEncoding \<Rightarrow> int tensor \<Rightarrow> error + real tensor" where
  "Sequential_forward = (\<lambda>(emb, pos) x.
     bind_e (Embeddings_forward emb x) (PositionalEncoding_forward pos))"

definition encode ::
  "EncoderDecoder \<Rightarrow> int tensor \<Rightarrow> bool tensor option \<Rightarrow> EncoderDecoder \<times> (error + real tensor)" where
  "encode model src src_mask =
     (case Sequential_forward (src_embed model) src of
        Inl e \<Rightarrow> (model, Inl e)
      | Inr x \<Rightarrow>
         (case Encoder_forward (encoder model) x src_mask of
            (enc, r) \<Rightarrow> (model\<lparr>encoder := enc\<rparr>, r)))"

definition decode ::
  "EncoderDecoder \<Rightarrow> real tensor \<Rightarrow> bool tensor option \<Rightarrow> int tensor \<Rightarrow> bool tensor option
     \<Rightarrow> EncoderDecoder \<times> (error + real tensor)" where
  "decode model memory src_mask tgt tgt_mask =
     (case Sequential_forward (tgt_embed model) tgt of
        Inl e \<Rightarrow> (model, Inl e)
      | Inr x \<Rightarrow>
         (case Decoder_forward (decoder model) x memory src_mask tgt_mask of
            (dec, r) \<Rightarrow> (model\<lparr>decoder := dec\<rparr>, r)))"

definition EncoderDecoder_forward ::
  "EncoderDecoder \<Rightarrow> int tensor \<Rightarrow> int tensor \<Rightarrow> bool tensor option \<Rightarrow> bool tensor option
     \<Rightarrow> EncoderDecoder \<times> (error + real tensor)" where
  "EncoderDecoder_forward model src tgt src_mask tgt_mask =
     (case encode model src src_mask of
        (model', Inl e) \<Rightarrow> (model', Inl e)
      | (model', Inr memory) \<Rightarrow> decode model' memory src_mask tgt tgt_mask)"

subsection \<open>The learned parameters of each module\<close>

text \<open>
  What \<^verbatim>\<open>Module.parameters()\<close> lists: the weight and bias of every linear layer, the two
  vectors of every LayerNorm and the embedding tables. The positional table is a buffer and
  the retained attention weights are a plain attribute; neither is a parameter.
\<close>

definition Linear_parameters :: "Linear \<Rightarrow> real tensor list" where
  "Linear_parameters l = [weight l, bias l]"

definition LayerNorm_parameters :: "LayerNorm \<Rightarrow> real tensor list" where
  "LayerNorm_parameters lnm = [a_2 lnm, b_2 lnm]"

definition MultiHeadedAttention_parameters :: "MultiHeadedAttention \<Rightarrow> real tensor list" where
  "MultiHeadedAttention_parameters m = concat (map Linear_parameters (linears m))"

definition PositionwiseFeedForward_parameters :: "PositionwiseFeedForward \<Rightarrow> real tensor list" where
  "PositionwiseFeedForward_parameters ff = Linear_parameters (w_1 ff) @ Linear_parameters (w_2 ff)"

definition SublayerConnection_parameters :: "SublayerConnection \<Rightarrow> real tensor list" where
  "SublayerConnection_parameters sc = LayerNorm_parameters (sc_norm sc)"

definition EncoderLayer_parameters :: "EncoderLayer \<Rightarrow> real tensor list" where
  "EncoderLayer_parameters l =
     MultiHeadedAttention_parameters (el_self_attn l)
     @ PositionwiseFeedForward_parameters (el_feed_forward l)
     @ concat (map SublayerConnection_parameters (el_sublayer l))"

definition DecoderLayer_parameters :: "DecoderLayer \<Rightarrow> real tensor list" where
  "DecoderLayer_parameters l =
     MultiHeadedAttention_parameters (dl_self_attn l)
     @ MultiHeadedAttention_parameters (dl_src_attn l)
     @ PositionwiseFeedForward_parameters (dl_feed_forward l)
     @ concat (map SublayerConnection_parameters (dl_sublayer l))"

definition Encoder_parameters :: "Encoder \<Rightarrow> real tensor list" where
  "Encoder_parameters enc =
     concat (map EncoderLayer_parameters (enc_layers enc)) @ LayerNorm_parameters (enc_norm enc)"

definition Decoder_parameters :: "Decoder \<Rightarrow> real tensor list" where
  "Decoder_parameters dec =
     concat (map DecoderLayer_parameters (dec_layers dec)) @ LayerNorm_parameters (dec_norm dec)"

definition EncoderDecoder_parameters :: "EncoderDecoder \<Rightarrow> real tensor list" where
  "EncoderDecoder_parameters model =
     Encoder_parameters (encoder model) @ Decoder_parameters (decoder model)
     @ [lut (fst (src_embed model))] @ [lut (fst (tgt_embed model))]
     @ Linear_parameters (proj (generator model))"

section \<open>The decoder in the words of the specification\<close>

text \<open>
  The specification describes the decoder as a composition of values: a sublayer connection
  is \<open>x + dropout (f (LayerNorm x))\<close>; a decoder layer is three of them, around masked
  self-attention, attention over the encoder memory, and the feed-forward network; the
  decoder is its layers in sequence, all with the same memory, and one final LayerNorm. The
  definitions below follow that wording; the result of an attention module is the second
  component of its \<open>forward\<close>. They are compared with the functions of the source in the
  theorem for claim C5.
\<close>

definition sublayer_spec ::
  "SublayerConnection \<Rightarrow> real tensor \<Rightarrow> (real tensor \<Rightarrow> error + real tensor)
     \<Rightarrow> error + real tensor" where
  "sublayer_spec sc x f =
     bind_e (LayerNorm_forward (sc_norm sc) x) (\<lambda>n.
     bind_e (f n) (\<lambda>y.
     add x (Dropout_forward (sc_dropout sc) y)))"

definition DecoderLayer_spec ::
  "DecoderLayer \<Rightarrow> real tensor \<Rightarrow> real tensor \<Rightarrow> bool tensor option \<Rightarrow> bool tensor option
     \<Rightarrow> error + real tensor" where
  "DecoderLayer_spec l x memory src_mask tgt_mask =
     bind_e (nth_e (dl_sublayer l) 0) (\<lambda>sc0.
     bind_e (sublayer_spec sc0 x
       (\<lambda>n. snd (MultiHeadedAttention_forward (dl_self_attn l) n n n tgt_mask))) (\<lambda>x1.
     bind_e (nth_e (dl_sublayer l) 1) (\<lambda>sc1.
     bind_e (sublayer_spec sc1 x1
       (\<lambda>n. snd (MultiHeadedAttention_forward (dl_src_attn l) n memory memory src_mask))) (\<lambda>x2.
     bind_e (nth_e (dl_sublayer l) 2) (\<lambda>sc2.
     sublayer_spec sc2 x2 (PositionwiseFeedForward_forward (dl_feed_forward l)))))))"

fun Decoder_spec_layers ::
  "DecoderLayer list \<Rightarrow> real tensor \<Rightarrow> real tensor \<Rightarrow> bool tensor option \<Rightarrow> bool tensor option
     \<Rightarrow> error + real tensor" where
  "Decoder_spec_layers [] x memory src_mask tgt_mask = Inr x"
| "Decoder_spec_layers (layer # rest) x memory src_mask tgt_mask =
     bind_e (DecoderLayer_spec layer x memory src_mask tgt_mask) (\<lambda>x'.
     Decoder_spec_layers rest x' memory src_mask tgt_mask)"

definition Decoder_spec ::
  "Decoder \<Rightarrow> real tensor \<Rightarrow> real tensor \<Rightarrow> bool tensor option \<Rightarrow> bool tensor option
     \<Rightarrow> error + real tensor" where
  "Decoder_spec dec x memory src_mask tgt_mask =
     bind_e (Decoder_spec_layers (dec_layers dec) x memory src_mask tgt_mask)
       (LayerNorm_forward (dec_norm dec))"

section \<open>Addressing lemmas\<close>

lemma ravel_less:
  "list_all2 (<) idx sh \<Longrightarrow> ravel sh idx < prod_list sh"
proof (induction idx sh rule: list_all2_induct)
  case Nil
  then show ?case by simp
next
  case (Cons i js d ds)
  have "i * prod_list ds + ravel ds js < i * prod_list ds + prod_list ds"
    using Cons.IH by simp
  also have "\<dots> = Suc i * prod_list ds" by simp
  also have "\<dots> \<le> d * prod_list ds"
    using Cons.hyps(1) by (intro mult_le_mono1) simp
  finally show ?case by simp
qed

lemma unravel_ravel:
  "list_all2 (<) idx sh \<Longrightarrow> unravel sh (ravel sh idx) = idx"
proof (induction idx sh rule: list_all2_induct)
  case Nil
  then show ?case by simp
next
  case (Cons i js d ds)
  have r: "ravel ds js < prod_list ds" using Cons.hyps(2) by (rule ravel_less)
  then show ?case using Cons.IH by simp
qed

lemma unravel_valid:
  "n < prod_list sh \<Longrightarrow> list_all2 (<) (unravel sh n) sh"
proof (induction sh arbitrary: n)
  case Nil
  then show ?case by simp
next
  case (Cons d ds)
  have pos: "0 < prod_list ds" using Cons.prems by (cases "prod_list ds = 0") auto
  have "n div prod_list ds < d"
    using Cons.prems pos by (simp add: less_mult_imp_div_less mult.commute)
  moreover have "n mod prod_list ds < prod_list ds" using pos by simp
  ultimately show ?case using Cons.IH by simp
qed

lemma ravel_unravel:
  "n < prod_list sh \<Longrightarrow> ravel sh (unravel sh n) = n"
proof (induction sh arbitrary: n)
  case Nil
  then show ?case by simp
next
  case (Cons d ds)
  have pos: "0 < prod_list ds" using Cons.prems by (cases "prod_list ds = 0") auto
  then show ?case using Cons.IH [of "n mod prod_list ds"] by simp
qed

lemma shape_tabulate [simp]: "shape (tabulate sh f) = sh"
  by (simp add: tabulate_def)

lemma wf_tabulate [simp]: "well_formed (tabulate sh f)"
  by (simp add: tabulate_def well_formed_def)

lemma elem_tabulate:
  "valid_index sh idx \<Longrightarrow> elem (tabulate sh f) idx = f idx"
  by (simp add: elem_def tabulate_def valid_index_def ravel_less unravel_ravel)

lemma tabulate_cong:
  assumes "\<And>idx. valid_index sh idx \<Longrightarrow> f idx = g idx"
  shows "tabulate sh f = tabulate sh g"
  using assms by (simp add: tabulate_def valid_index_def unravel_valid)

lemma tmap_tabulate: "tmap h (tabulate sh f) = tabulate sh (\<lambda>idx. h (f idx))"
  by (simp add: tmap_def tabulate_def)

lemma tabulate_elem: "well_formed t \<Longrightarrow> tabulate (shape t) (elem t) = t"
proof -
  assume w: "well_formed t"
  have "map (\<lambda>n. data t ! ravel (shape t) (unravel (shape t) n)) [0..<prod_list (shape t)] = data t"
    using w by (intro nth_equalityI) (simp_all add: well_formed_def ravel_unravel)
  then show ?thesis by (simp add: tabulate_def elem_def)
qed

lemma valid_index_length: "valid_index sh idx \<Longrightarrow> length idx = length sh"
  by (simp add: valid_index_def list_all2_lengthD)

lemma valid_index_nth: "valid_index sh idx \<Longrightarrow> k < length sh \<Longrightarrow> idx ! k < sh ! k"
  by (simp add: valid_index_def list_all2_nthD2)

section \<open>The causal mask is lower triangular\<close>

lemma to_uint8_0 [simp]: "to_uint8 0 = 0"
  by (simp add: to_uint8_def)

lemma to_uint8_1 [simp]: "to_uint8 1 = 1"
  by (simp add: to_uint8_def)

lemma subsequent_mask_tabulate:
  assumes "0 \<le> L"
  shows "subsequent_mask L = Inr (tabulate [1, nat L, nat L] (\<lambda>idx. idx ! 2 \<le> idx ! 1))"
proof -
  let ?sh = "[1, nat L, nat L]"
  have o: "ones [1, L, L] = Inr (tabulate ?sh (\<lambda>_. 1))"
    using assms by (simp add: ones_def)
  have t: "triu (tabulate ?sh (\<lambda>_. 1)) 1
    = Inr (tabulate ?sh (\<lambda>idx. if idx ! 2 \<le> idx ! 1 then 0 else 1))"
    unfolding triu_def
    by (auto simp: Let_def elem_tabulate valid_index_length numeral_2_eq_2 intro!: tabulate_cong)
  have "subsequent_mask L
    = Inr (eq_scalar (type_uint8 (tabulate ?sh (\<lambda>idx. if idx ! 2 \<le> idx ! 1 then 0 else 1))) 0)"
    by (simp only: subsequent_mask_def Let_def o t bind_e_def sum.case)
  also have "eq_scalar (type_uint8 (tabulate ?sh (\<lambda>idx. if idx ! 2 \<le> idx ! 1 then 0 else 1))) 0
    = tabulate ?sh (\<lambda>idx. idx ! 2 \<le> idx ! 1)"
    unfolding type_uint8_def eq_scalar_def tmap_tabulate
    by (rule tabulate_cong) simp
  finally show ?thesis .
qed

lemma subsequent_mask_5:
  "tabulate [1, 5, 5] (\<lambda>idx. idx ! 2 \<le> idx ! 1) = \<lparr>shape = [1, 5, 5], data =
    [True, False, False, False, False,
     True, True, False, False, False,
     True, True, True, False, False,
     True, True, True, True, False,
     True, True, True, True, True]\<rparr>"
  by code_simp

text \<open>
  Claim C2. For every length \<open>L \<ge> 0\<close>, \<open>subsequent_mask L\<close> returns a boolean tensor of
  shape \<open>(1, L, L)\<close> whose entry \<open>[0][i][j]\<close> is true exactly when \<open>j \<le> i\<close>; and
  \<open>subsequent_mask 5\<close> is the lower-triangular pattern the notebook prints, with only
  column 0 true in row 0 and every column true in row 4.
\<close>

theorem subsequent_mask_lower_triangular:
  "(0 \<le> L \<longrightarrow>
      (\<exists>t. subsequent_mask L = Inr t \<and> shape t = [1, nat L, nat L] \<and> well_formed t
          \<and> (\<forall>i < nat L. \<forall>j < nat L. elem t [0, i, j] = (j \<le> i))))
   \<and> subsequent_mask 5 = Inr \<lparr>shape = [1, 5, 5], data =
        [True, False, False, False, False,
         True, True, False, False, False,
         True, True, True, False, False,
         True, True, True, True, False,
         True, True, True, True, True]\<rparr>"
proof (intro conjI impI)
  assume L: "0 \<le> L"
  let ?t = "tabulate [1, nat L, nat L] (\<lambda>idx. idx ! 2 \<le> idx ! 1)"
  have "\<forall>i < nat L. \<forall>j < nat L. elem ?t [0, i, j] = (j \<le> i)"
    by (simp add: elem_tabulate valid_index_def)
  then show "\<exists>t. subsequent_mask L = Inr t \<and> shape t = [1, nat L, nat L] \<and> well_formed t
      \<and> (\<forall>i < nat L. \<forall>j < nat L. elem t [0, i, j] = (j \<le> i))"
    using subsequent_mask_tabulate [OF L] by simp
next
  have "subsequent_mask 5 = Inr (tabulate [1, nat 5, nat 5] (\<lambda>idx. idx ! 2 \<le> idx ! 1))"
    by (rule subsequent_mask_tabulate) simp
  then show "subsequent_mask 5 = Inr \<lparr>shape = [1, 5, 5], data =
        [True, False, False, False, False,
         True, True, False, False, False,
         True, True, True, False, False,
         True, True, True, True, False,
         True, True, True, True, True]\<rparr>"
    by (simp only: nat_numeral subsequent_mask_5)
qed

theorem subsequent_mask_lower_triangular_witness:
  "0 \<le> (3::int) \<and> (\<exists>t. subsequent_mask 3 = Inr t \<and> shape t = [1, 3, 3]
      \<and> elem t [0, 2, 1] \<and> elem t [0, 1, 1] \<and> \<not> elem t [0, 1, 2])"
proof -
  from subsequent_mask_lower_triangular [of 3]
  obtain t where t: "subsequent_mask 3 = Inr t" "shape t = [1, 3, 3]"
    and e: "\<forall>i < 3. \<forall>j < 3. elem t [0, i, j] = (j \<le> i)"
    by auto
  have "elem t [0, 2, 1]" "elem t [0, 1, 1]" "\<not> elem t [0, 1, 2]"
    using e by simp_all
  with t show ?thesis by simp
qed

section \<open>Broadcasting lemmas\<close>

lemma broadcast_rev_same: "broadcast_rev s s = Some s"
  by (induction s) auto

lemma broadcast_shapes_same: "broadcast_shapes s s = Some s"
  by (simp add: broadcast_shapes_def broadcast_rev_same)

lemma broadcast_shapes_keepdim: "broadcast_shapes (bs @ [F]) (bs @ [1]) = Some (bs @ [F])"
  by (simp add: broadcast_shapes_def broadcast_rev_same)

lemma broadcast_rev_Nil2: "broadcast_rev xs [] = Some xs"
  by (cases xs) auto

lemma broadcast_shapes_vec_left: "broadcast_shapes [F] (bs @ [F]) = Some (bs @ [F])"
  by (simp add: broadcast_shapes_def)

lemma broadcast_shapes_vec_right: "broadcast_shapes (bs @ [F]) [F] = Some (bs @ [F])"
  by (simp add: broadcast_shapes_def broadcast_rev_Nil2)

lemma bidx_same: "valid_index sh idx \<Longrightarrow> bidx sh idx = idx"
proof -
  assume v: "valid_index sh idx"
  then have len: "length idx = length sh" by (rule valid_index_length)
  have "map2 (\<lambda>d i. if d = 1 then 0 else i) sh idx = idx"
  proof (rule nth_equalityI)
    show "length (map2 (\<lambda>d i. if d = 1 then 0 else i) sh idx) = length idx"
      using len by simp
  next
    fix k assume "k < length (map2 (\<lambda>d i. if d = 1 then 0 else i) sh idx)"
    then have k: "k < length sh" by simp
    then have "idx ! k < sh ! k" using v by (simp add: valid_index_nth)
    then show "map2 (\<lambda>d i. if d = 1 then 0 else i) sh idx ! k = idx ! k"
      using k len by auto
  qed
  then show ?thesis using len by (simp add: bidx_def)
qed

lemma valid_index_snoc:
  "valid_index (bs @ [F]) (pre @ [j]) \<longleftrightarrow> valid_index bs pre \<and> j < F"
proof (cases "length pre = length bs")
  case True
  then show ?thesis by (simp add: valid_index_def list_all2_append)
next
  case False
  then show ?thesis by (auto simp: valid_index_def dest: list_all2_lengthD)
qed

lemma valid_index_append:
  "valid_index (bs @ [F]) idx \<longleftrightarrow> (idx \<noteq> [] \<and> valid_index bs (butlast idx) \<and> last idx < F)"
proof (cases idx rule: rev_cases)
  case Nil
  then show ?thesis by (simp add: valid_index_def)
next
  case (snoc pre j)
  then show ?thesis by (simp add: valid_index_snoc)
qed

lemma bidx_keepdim:
  assumes "valid_index (bs @ [F]) idx"
  shows "bidx (bs @ [1]) idx = butlast idx @ [0]"
proof -
  from assms obtain pre j where idx: "idx = pre @ [j]" and pre: "valid_index bs pre"
    by (cases idx rule: rev_cases) (auto simp: valid_index_append)
  have len: "length pre = length bs" using pre by (rule valid_index_length)
  have "bidx bs pre = pre" using pre by (rule bidx_same)
  then show ?thesis using len by (simp add: idx bidx_def)
qed

lemma bidx_vec:
  assumes "valid_index (bs @ [F]) idx"
  shows "bidx [F] idx = [last idx]"
proof -
  from assms obtain pre j where idx: "idx = pre @ [j]" and pre: "valid_index bs pre" and j: "j < F"
    by (cases idx rule: rev_cases) (auto simp: valid_index_append)
  show ?thesis using j by (auto simp: idx bidx_def)
qed

lemma broadcast_op_tabulate:
  assumes "broadcast_shapes (shape a) (shape b) = Some sh"
    and "\<And>idx. valid_index sh idx \<Longrightarrow>
           f (elem a (bidx (shape a) idx)) (elem b (bidx (shape b) idx)) = g idx"
  shows "broadcast_op f a b = Inr (tabulate sh g)"
proof -
  have "tabulate sh (\<lambda>idx. f (elem a (bidx (shape a) idx)) (elem b (bidx (shape b) idx)))
    = tabulate sh g"
    by (rule tabulate_cong) (rule assms(2))
  then show ?thesis using assms(1) by (simp add: broadcast_op_def)
qed

lemma lane_butlast:
  assumes "butlast idx = butlast idx'"
  shows "lane t idx = lane t idx'"
  unfolding lane_def assms ..

lemma keepdim_shape_append [simp]: "keepdim_shape (bs @ [F]) = bs @ [1]"
  by (simp add: keepdim_shape_def)

lemma valid_index_keepdim:
  "valid_index (bs @ [F]) idx \<Longrightarrow> 0 < F \<Longrightarrow> valid_index (bs @ [1]) (butlast idx @ [0])"
  by (auto simp: valid_index_append)


section \<open>Layer normalisation computes the stated formula\<close>

lemma lane_length: "shape t = bs @ [F] \<Longrightarrow> length (lane t idx) = F"
  by (simp add: lane_def)

lemma sub_keepdim:
  assumes "shape x = bs @ [F]" "shape r = bs @ [1]"
  shows "broadcast_op f x r
    = Inr (tabulate (bs @ [F]) (\<lambda>idx. f (elem x idx) (elem r (butlast idx @ [0]))))"
proof (rule broadcast_op_tabulate)
  show "broadcast_shapes (shape x) (shape r) = Some (bs @ [F])"
    unfolding assms by (rule broadcast_shapes_keepdim)
next
  fix idx assume v: "valid_index (bs @ [F]) idx"
  show "f (elem x (bidx (shape x) idx)) (elem r (bidx (shape r) idx))
    = f (elem x idx) (elem r (butlast idx @ [0]))"
    unfolding assms bidx_same [OF v] bidx_keepdim [OF v] ..
qed

lemma op_vec_left:
  assumes "shape v = [F]" "shape x = bs @ [F]"
  shows "broadcast_op f v x
    = Inr (tabulate (bs @ [F]) (\<lambda>idx. f (elem v [last idx]) (elem x idx)))"
  by (rule broadcast_op_tabulate)
    (simp_all add: assms broadcast_shapes_vec_left bidx_same bidx_vec)

lemma op_vec_right:
  assumes "shape x = bs @ [F]" "shape v = [F]"
  shows "broadcast_op f x v
    = Inr (tabulate (bs @ [F]) (\<lambda>idx. f (elem x idx) (elem v [last idx])))"
  by (rule broadcast_op_tabulate)
    (simp_all add: assms broadcast_shapes_vec_right bidx_same bidx_vec)

lemma valid_index_keepdim0:
  "valid_index (bs @ [F]) idx \<Longrightarrow> valid_index (bs @ [1]) (butlast idx @ [0])"
  by (simp add: valid_index_append valid_index_snoc)

lemma elem_mean_keepdim:
  assumes "shape x = bs @ [F]" "valid_index (bs @ [F]) idx"
  shows "elem (mean_keepdim x) (butlast idx @ [0]) = mean_list (lane x idx)"
proof -
  have "elem (mean_keepdim x) (butlast idx @ [0]) = mean_list (lane x (butlast idx @ [0]))"
    unfolding mean_keepdim_def assms(1) keepdim_shape_append
    by (rule elem_tabulate) (rule valid_index_keepdim0 [OF assms(2)])
  also have "lane x (butlast idx @ [0]) = lane x idx"
    by (rule lane_butlast) simp
  finally show ?thesis .
qed

lemma elem_std_keepdim:
  assumes "shape x = bs @ [F]" "valid_index (bs @ [F]) idx"
  shows "elem (add_scalar (std_keepdim x) e) (butlast idx @ [0]) = std_list (lane x idx) + e"
proof -
  have "elem (add_scalar (std_keepdim x) e) (butlast idx @ [0])
    = std_list (lane x (butlast idx @ [0])) + e"
    unfolding std_keepdim_def add_scalar_def tmap_tabulate assms(1) keepdim_shape_append
    by (rule elem_tabulate) (rule valid_index_keepdim0 [OF assms(2)])
  also have "lane x (butlast idx @ [0]) = lane x idx"
    by (rule lane_butlast) simp
  finally show ?thesis .
qed

lemma shape_mean_keepdim: "shape x = bs @ [F] \<Longrightarrow> shape (mean_keepdim x) = bs @ [1]"
  unfolding mean_keepdim_def by (simp only: shape_tabulate keepdim_shape_append)

lemma shape_std_keepdim:
  "shape x = bs @ [F] \<Longrightarrow> shape (add_scalar (std_keepdim x) e) = bs @ [1]"
  unfolding std_keepdim_def add_scalar_def tmap_tabulate
  by (simp only: shape_tabulate keepdim_shape_append)

lemma LayerNorm_forward_tabulate:
  assumes x: "shape x = bs @ [F]" and a: "shape (a_2 lnm) = [F]" and b: "shape (b_2 lnm) = [F]"
  shows "LayerNorm_forward lnm x = Inr (tabulate (bs @ [F])
    (\<lambda>idx. elem (a_2 lnm) [last idx] * (elem x idx - mean_list (lane x idx))
              / (std_list (lane x idx) + eps lnm) + elem (b_2 lnm) [last idx]))"
proof -
  let ?sh = "bs @ [F]"
  let ?c = "tabulate ?sh (\<lambda>idx. elem x idx - mean_list (lane x idx))"
  let ?s = "tabulate ?sh (\<lambda>idx. elem (a_2 lnm) [last idx] * (elem x idx - mean_list (lane x idx)))"
  let ?n = "tabulate ?sh (\<lambda>idx. elem (a_2 lnm) [last idx] * (elem x idx - mean_list (lane x idx))
              / (std_list (lane x idx) + eps lnm))"
  have s1: "sub x (mean_keepdim x) = Inr ?c"
  proof -
    have "sub x (mean_keepdim x)
      = Inr (tabulate ?sh (\<lambda>idx. elem x idx - elem (mean_keepdim x) (butlast idx @ [0])))"
      unfolding sub_def by (rule sub_keepdim [OF x shape_mean_keepdim [OF x]])
    also have "tabulate ?sh (\<lambda>idx. elem x idx - elem (mean_keepdim x) (butlast idx @ [0])) = ?c"
      by (rule tabulate_cong) (simp only: elem_mean_keepdim [OF x])
    finally show ?thesis .
  qed
  have s2: "mul (a_2 lnm) ?c = Inr ?s"
  proof -
    have "mul (a_2 lnm) ?c = Inr (tabulate ?sh (\<lambda>idx. elem (a_2 lnm) [last idx] * elem ?c idx))"
      unfolding mul_def by (rule op_vec_left [OF a]) (rule shape_tabulate)
    also have "tabulate ?sh (\<lambda>idx. elem (a_2 lnm) [last idx] * elem ?c idx) = ?s"
      by (rule tabulate_cong) (simp only: elem_tabulate)
    finally show ?thesis .
  qed
  let ?d = "add_scalar (std_keepdim x) (eps lnm)"
  have s3: "divide_t ?s ?d = Inr ?n"
  proof -
    have "divide_t ?s ?d = Inr (tabulate ?sh (\<lambda>idx. elem ?s idx / elem ?d (butlast idx @ [0])))"
      unfolding divide_t_def
      by (rule sub_keepdim [OF shape_tabulate shape_std_keepdim [OF x]])
    also have "tabulate ?sh (\<lambda>idx. elem ?s idx / elem ?d (butlast idx @ [0])) = ?n"
      by (rule tabulate_cong) (simp only: elem_std_keepdim [OF x] elem_tabulate)
    finally show ?thesis .
  qed
  have s4: "add ?n (b_2 lnm) = Inr (tabulate ?sh
    (\<lambda>idx. elem (a_2 lnm) [last idx] * (elem x idx - mean_list (lane x idx))
              / (std_list (lane x idx) + eps lnm) + elem (b_2 lnm) [last idx]))"
  proof -
    have "add ?n (b_2 lnm) = Inr (tabulate ?sh (\<lambda>idx. elem ?n idx + elem (b_2 lnm) [last idx]))"
      unfolding add_def by (rule op_vec_right [OF shape_tabulate b])
    also have "tabulate ?sh (\<lambda>idx. elem ?n idx + elem (b_2 lnm) [last idx]) = tabulate ?sh
      (\<lambda>idx. elem (a_2 lnm) [last idx] * (elem x idx - mean_list (lane x idx))
              / (std_list (lane x idx) + eps lnm) + elem (b_2 lnm) [last idx])"
      by (rule tabulate_cong) (simp only: elem_tabulate)
    finally show ?thesis .
  qed
  show ?thesis
    unfolding LayerNorm_forward_def Let_def
    by (simp only: s1 s2 s3 s4 bind_e_def sum.case)
qed


lemma tabulate_const_vec: "tabulate [F] (\<lambda>_. c) = \<lparr>shape = [F], data = replicate F c\<rparr>"
  by (simp add: tabulate_def map_replicate_const)

text \<open>
  Claim C4. \<open>LayerNorm.forward\<close> takes the mean and the sample standard deviation (with
  divisor \<open>F - 1\<close>) over the last axis, separately for every position, and returns
  \<open>a_2 * (x - mean) / (std + eps) + b_2\<close>: the divisor is \<open>std + eps\<close>, not
  \<open>sqrt (var + eps)\<close>. The constructor sets \<open>eps\<close> to \<open>10\<^sup>-\<^sup>6\<close> by default and makes
  \<open>a_2\<close> and \<open>b_2\<close> vectors of the size of the feature axis. The hypotheses \<open>2 \<le> F\<close> and
  \<open>0 < eps\<close> exclude the inputs on which the floating-point code divides by zero.
\<close>

theorem LayerNorm_forward_formula:
  assumes "shape x = bs @ [F]" and "2 \<le> F"
    and "shape (a_2 lnm) = [F]" and "shape (b_2 lnm) = [F]" and "0 < eps lnm"
  shows "(\<exists>y. LayerNorm_forward lnm x = Inr y \<and> shape y = shape x \<and>
           (\<forall>idx. valid_index (shape x) idx \<longrightarrow>
             (let xs = map (\<lambda>j. elem x (butlast idx @ [j])) [0..<F];
                  mean = sum_list xs / real F;
                  std = sqrt (sum_list (map (\<lambda>v. (v - mean)\<^sup>2) xs) / (real F - 1))
              in elem y idx = elem (a_2 lnm) [last idx] * (elem x idx - mean) / (std + eps lnm)
                                + elem (b_2 lnm) [last idx])))
       \<and> eps (LayerNorm_init F None) = 1 / 1000000
       \<and> a_2 (LayerNorm_init F None) = \<lparr>shape = [F], data = replicate F 1\<rparr>
       \<and> b_2 (LayerNorm_init F None) = \<lparr>shape = [F], data = replicate F 0\<rparr>"
proof (intro conjI)
  let ?y = "tabulate (bs @ [F])
    (\<lambda>idx. elem (a_2 lnm) [last idx] * (elem x idx - mean_list (lane x idx))
              / (std_list (lane x idx) + eps lnm) + elem (b_2 lnm) [last idx])"
  have y: "LayerNorm_forward lnm x = Inr ?y"
    using assms(1,3,4) by (rule LayerNorm_forward_tabulate)
  have ne: "shape x \<noteq> []" using assms(1) by simp
  have "\<forall>idx. valid_index (shape x) idx \<longrightarrow>
             (let xs = map (\<lambda>j. elem x (butlast idx @ [j])) [0..<F];
                  mean = sum_list xs / real F;
                  std = sqrt (sum_list (map (\<lambda>v. (v - mean)\<^sup>2) xs) / (real F - 1))
              in elem ?y idx = elem (a_2 lnm) [last idx] * (elem x idx - mean) / (std + eps lnm)
                                + elem (b_2 lnm) [last idx])"
    using assms(1)
    by (simp add: elem_tabulate Let_def lane_def mean_list_def std_list_def)
  then show "\<exists>y. LayerNorm_forward lnm x = Inr y \<and> shape y = shape x \<and>
           (\<forall>idx. valid_index (shape x) idx \<longrightarrow>
             (let xs = map (\<lambda>j. elem x (butlast idx @ [j])) [0..<F];
                  mean = sum_list xs / real F;
                  std = sqrt (sum_list (map (\<lambda>v. (v - mean)\<^sup>2) xs) / (real F - 1))
              in elem y idx = elem (a_2 lnm) [last idx] * (elem x idx - mean) / (std + eps lnm)
                                + elem (b_2 lnm) [last idx]))"
    using y assms(1) by (intro exI [of _ ?y]) simp
qed (simp_all add: LayerNorm_init_def tabulate_const_vec)

text \<open>
  On the input \<open>[0, 1, 2]\<close> the mean and the sample variance are 1, so dividing by
  \<open>sqrt (var + eps)\<close> would give \<open>- 1 / sqrt (1 + 10\<^sup>-\<^sup>6)\<close> in the first entry; the code
  gives \<open>- 1 / (1 + 10\<^sup>-\<^sup>6)\<close>, and the two differ.
\<close>

lemma sqrt_var_eps_differs: "- (1000000 / 1000001) \<noteq> - 1 / sqrt (1 + 1 / 1000000 :: real)"
proof
  assume "- (1000000 / 1000001) = - 1 / sqrt (1 + 1 / 1000000 :: real)"
  then have e: "sqrt (1000001 / 1000000 :: real) = 1000001 / 1000000"
    by (simp add: field_simps)
  have "(sqrt (1000001 / 1000000 :: real))\<^sup>2 = 1000001 / 1000000" by simp
  then have "(1000001 / 1000000 :: real)\<^sup>2 = 1000001 / 1000000" unfolding e .
  then show False by (simp add: power2_eq_square)
qed

theorem LayerNorm_forward_formula_witness:
  "(2::nat) \<le> 3 \<and> 0 < eps (LayerNorm_init 3 None) \<and>
   (\<exists>y. LayerNorm_forward (LayerNorm_init 3 None) \<lparr>shape = [3], data = [0, 1, 2]\<rparr> = Inr y
      \<and> shape y = [3] \<and> elem y [0] = - (1000000 / 1000001) \<and> elem y [1] = 0
      \<and> elem y [2] = 1000000 / 1000001
      \<and> elem y [0] \<noteq> - 1 / sqrt (1 + 1 / 1000000))"
proof -
  let ?x = "\<lparr>shape = [3], data = [0, 1, 2 :: real]\<rparr>"
  let ?l = "LayerNorm_init 3 None"
  have xs: "map (\<lambda>j. elem ?x [j]) [0..<3] = [0, 1, 2]"
    by (simp add: elem_def upt_conv_Cons)
  have p: "shape ?x = [] @ [3]" "shape (a_2 ?l) = [3]" "shape (b_2 ?l) = [3]" "0 < eps ?l"
    by (simp_all add: LayerNorm_init_def)
  have a: "elem (a_2 ?l) [j] = 1" "elem (b_2 ?l) [j] = 0" if "j < 3" for j
    using that by (simp_all add: LayerNorm_init_def elem_tabulate valid_index_def)
  have "\<exists>y. LayerNorm_forward ?l ?x = Inr y \<and> shape y = shape ?x \<and>
           (\<forall>idx. valid_index (shape ?x) idx \<longrightarrow>
             (let xs = map (\<lambda>j. elem ?x (butlast idx @ [j])) [0..<3];
                  mean = sum_list xs / real 3;
                  std = sqrt (sum_list (map (\<lambda>v. (v - mean)\<^sup>2) xs) / (real 3 - 1))
              in elem y idx = elem (a_2 ?l) [last idx] * (elem ?x idx - mean) / (std + eps ?l)
                                + elem (b_2 ?l) [last idx]))"
    by (rule conjunct1 [OF LayerNorm_forward_formula [OF p(1) _ p(2) p(3) p(4)]]) simp
  then obtain y where y: "LayerNorm_forward ?l ?x = Inr y" "shape y = shape ?x"
    and e: "\<And>idx. valid_index (shape ?x) idx \<Longrightarrow>
             (let xs = map (\<lambda>j. elem ?x (butlast idx @ [j])) [0..<3];
                  mean = sum_list xs / real 3;
                  std = sqrt (sum_list (map (\<lambda>v. (v - mean)\<^sup>2) xs) / (real 3 - 1))
              in elem y idx = elem (a_2 ?l) [last idx] * (elem ?x idx - mean) / (std + eps ?l)
                                + elem (b_2 ?l) [last idx])"
    by blast
  have ep: "eps ?l = 1 / 1000000" by (simp add: LayerNorm_init_def)
  have xk: "elem ?x [0] = 0" "elem ?x [Suc 0] = 1" "elem ?x [2] = 2"
    by (simp_all add: elem_def)
  have e0: "elem y [0] = - (1000000 / 1000001)"
    using e [of "[0]"] by (simp add: valid_index_def xs a Let_def ep xk)
  have e1: "elem y [1] = 0"
    using e [of "[1]"] by (simp add: valid_index_def xs a Let_def ep xk)
  have e2: "elem y [2] = 1000000 / 1000001"
    using e [of "[2]"] by (simp add: valid_index_def xs a Let_def ep xk)
  have ne: "elem y [0] \<noteq> - 1 / sqrt (1 + 1 / 1000000)"
    unfolding e0 by (rule sqrt_var_eps_differs)
  show ?thesis using y e0 e1 e2 ne p(4) by simp
qed

section \<open>Construction of the multi-head attention module\<close>

text \<open>
  Claim C7. Constructing a \<open>MultiHeadedAttention\<close> whose \<open>d_model\<close> is not divisible by
  \<open>h\<close> fails in the constructor: the assertion fails, or the remainder itself raises when
  \<open>h = 0\<close>. When \<open>h\<close> divides \<open>d_model\<close> the construction succeeds with
  \<open>d_k = d_model / h\<close> (given a dropout rate that \<^verbatim>\<open>nn.Dropout\<close> accepts, as the default
  is).
\<close>

theorem MultiHeadedAttention_init_divisibility:
  "(h = 0 \<longrightarrow> MultiHeadedAttention_init h dm dropout lin kp = Inl ZeroDivisionError)
   \<and> (h \<noteq> 0 \<and> dm mod h \<noteq> 0 \<longrightarrow>
        MultiHeadedAttention_init h dm dropout lin kp = Inl AssertionError)
   \<and> (h \<noteq> 0 \<and> dm mod h = 0 \<and> (case dropout of None \<Rightarrow> True | Some p \<Rightarrow> 0 \<le> p \<and> p \<le> 1) \<longrightarrow>
        (\<exists>m. MultiHeadedAttention_init h dm dropout lin kp = Inr m
           \<and> d_k m = dm div h \<and> d_k m * h = dm \<and> mha_h m = h
           \<and> linears m = [lin, lin, lin, lin] \<and> attn m = None))"
  by (auto simp: MultiHeadedAttention_init_def Dropout_init_def bind_e_def clones_def
      numeral_eq_Suc split: option.splits)

theorem MultiHeadedAttention_init_divisibility_witness:
  "MultiHeadedAttention_init 3 512 None
      \<lparr>weight = \<lparr>shape = [512, 512], data = replicate 262144 0\<rparr>,
       bias = \<lparr>shape = [512], data = replicate 512 0\<rparr>\<rparr> (\<lambda>_. True) = Inl AssertionError
   \<and> MultiHeadedAttention_init 0 512 None
      \<lparr>weight = \<lparr>shape = [512, 512], data = replicate 262144 0\<rparr>,
       bias = \<lparr>shape = [512], data = replicate 512 0\<rparr>\<rparr> (\<lambda>_. True) = Inl ZeroDivisionError
   \<and> (\<exists>m. MultiHeadedAttention_init 8 512 None
      \<lparr>weight = \<lparr>shape = [512, 512], data = replicate 262144 0\<rparr>,
       bias = \<lparr>shape = [512], data = replicate 512 0\<rparr>\<rparr> (\<lambda>_. True) = Inr m
      \<and> d_k m = 64 \<and> mha_h m = 8)"
proof -
  let ?lin = "\<lparr>weight = \<lparr>shape = [512, 512], data = replicate 262144 (0::real)\<rparr>,
       bias = \<lparr>shape = [512], data = replicate 512 (0::real)\<rparr>\<rparr>"
  note t = MultiHeadedAttention_init_divisibility [where lin = ?lin and kp = "\<lambda>_. True"
      and dropout = None and dm = 512]
  have a: "MultiHeadedAttention_init 3 512 None ?lin (\<lambda>_. True) = Inl AssertionError"
    using t [of 3] by simp
  have z: "MultiHeadedAttention_init 0 512 None ?lin (\<lambda>_. True) = Inl ZeroDivisionError"
    using t [of 0] by simp
  have s: "\<exists>m. MultiHeadedAttention_init 8 512 None ?lin (\<lambda>_. True) = Inr m
      \<and> d_k m = 64 \<and> mha_h m = 8"
    using t [of 8] by auto
  show ?thesis using a z s by blast
qed

section \<open>Scaled dot-product attention, entry by entry\<close>

lemma valid_index_snoc2:
  "valid_index (bs @ [n, m]) (pre @ [i, j]) \<longleftrightarrow> valid_index bs pre \<and> i < n \<and> j < m"
  using valid_index_snoc [of "bs @ [n]" m "pre @ [i]" j] valid_index_snoc [of bs n pre i]
  by simp

lemma valid_index_split2:
  assumes "valid_index (bs @ [n, m]) idx"
  obtains pre i j where "idx = pre @ [i, j]" "valid_index bs pre" "i < n" "j < m"
proof -
  have len: "length idx = length bs + 2" using assms by (simp add: valid_index_length)
  then obtain xs j where a: "idx = xs @ [j]" by (cases idx rule: rev_cases) auto
  with len obtain pre i where b: "xs = pre @ [i]" by (cases xs rule: rev_cases) auto
  have "idx = pre @ [i, j]" using a b by simp
  moreover from assms this have "valid_index bs pre \<and> i < n \<and> j < m"
    by (simp add: valid_index_snoc2)
  ultimately show ?thesis using that by blast
qed

lemma shape_tab2 [simp]: "shape (tab2 bs n m g) = bs @ [n, m]"
  by (simp add: tab2_def)

lemma elem_tab2:
  "valid_index bs pre \<Longrightarrow> i < n \<Longrightarrow> j < m \<Longrightarrow> elem (tab2 bs n m g) (pre @ [i, j]) = g pre i j"
  unfolding tab2_def
  by (subst elem_tabulate) (simp_all add: valid_index_snoc2 butlast_append)

lemma tab2_cong:
  assumes "\<And>pre i j. valid_index bs pre \<Longrightarrow> i < n \<Longrightarrow> j < m \<Longrightarrow> g pre i j = g' pre i j"
  shows "tab2 bs n m g = tab2 bs n m g'"
  unfolding tab2_def
proof (rule tabulate_cong)
  fix idx assume "valid_index (bs @ [n, m]) idx"
  then obtain pre i j where "idx = pre @ [i, j]" "valid_index bs pre" "i < n" "j < m"
    by (rule valid_index_split2)
  then show "g (butlast (butlast idx)) (last (butlast idx)) (last idx)
    = g' (butlast (butlast idx)) (last (butlast idx)) (last idx)"
    using assms by (simp add: butlast_append)
qed

lemma tabulate_tab2:
  assumes "\<And>pre i j. valid_index bs pre \<Longrightarrow> i < n \<Longrightarrow> j < m \<Longrightarrow> f (pre @ [i, j]) = g pre i j"
  shows "tabulate (bs @ [n, m]) f = tab2 bs n m g"
  unfolding tab2_def
proof (rule tabulate_cong)
  fix idx assume "valid_index (bs @ [n, m]) idx"
  then obtain pre i j where "idx = pre @ [i, j]" "valid_index bs pre" "i < n" "j < m"
    by (rule valid_index_split2)
  then show "f idx = g (butlast (butlast idx)) (last (butlast idx)) (last idx)"
    using assms by (simp add: butlast_append)
qed

lemma tmap_tab2: "tmap h (tab2 bs n m g) = tab2 bs n m (\<lambda>pre i j. h (g pre i j))"
  by (simp add: tab2_def tmap_tabulate)

lemma size_dim_last: "shape t = bs @ [d] \<Longrightarrow> size_dim t (- 1) = Inr d"
  by (simp add: size_dim_def norm_dim_def bind_e_def Let_def nth_append)

lemma transpose_last2:
  assumes "shape t = bs @ [m, d]"
  shows "transpose_t t (- 2) (- 1) = Inr (tab2 bs d m (\<lambda>pre a b. elem t (pre @ [b, a])))"
proof -
  let ?r = "length (shape t)"
  have r: "?r = length bs + 2" using assms by simp
  have n2: "norm_dim ?r (- 2) = Inr (length bs)" and n1: "norm_dim ?r (- 1) = Inr (length bs + 1)"
    using r by (simp_all add: norm_dim_def Let_def)
  have sh: "(shape t)[length bs := shape t ! (length bs + 1), length bs + 1 := shape t ! length bs]
    = bs @ [d, m]"
    by (simp add: assms nth_append list_update_append)
  have "transpose_t t (- 2) (- 1) = Inr (tabulate (bs @ [d, m])
    (\<lambda>idx. elem t (idx[length bs := idx ! (length bs + 1), length bs + 1 := idx ! length bs])))"
    unfolding transpose_t_def n2 n1 bind_e_def sum.case sh ..
  also have "tabulate (bs @ [d, m])
    (\<lambda>idx. elem t (idx[length bs := idx ! (length bs + 1), length bs + 1 := idx ! length bs]))
    = tab2 bs d m (\<lambda>pre a b. elem t (pre @ [b, a]))"
  proof (rule tabulate_tab2)
    fix pre a b assume "valid_index bs pre"
    then have "length pre = length bs" by (rule valid_index_length)
    then show "elem t ((pre @ [a, b])[length bs := (pre @ [a, b]) ! (length bs + 1),
        length bs + 1 := (pre @ [a, b]) ! length bs]) = elem t (pre @ [b, a])"
      by (simp add: nth_append list_update_append)
  qed
  finally show ?thesis .
qed


lemma shape_update_same: "shape t = sh \<Longrightarrow> t\<lparr>shape := sh\<rparr> = t"
  by (cases t) simp

lemma butlast2_snoc2: "butlast (butlast (xs @ [a, b])) = xs"
  by (simp add: butlast_append)

lemma last_butlast_snoc2: "last (butlast (xs @ [a, b])) = a"
  by (simp add: butlast_append)

lemma matmul_batched:
  assumes a: "shape a = bs @ [n, k]" and b: "shape b = bs @ [k, m]"
  shows "matmul a b = Inr (tab2 bs n m
    (\<lambda>pre i j. sum_list (map (\<lambda>t. elem a (pre @ [i, t]) * elem b (pre @ [t, j])) [0..<k])))"
proof -
  let ?f = "\<lambda>idx. let pre = butlast (butlast idx); i = last (butlast idx); j = last idx
             in sum_list (map (\<lambda>t. elem a (bidx bs pre @ [i, t]) * elem b (bidx bs pre @ [t, j]))
                           [0..<k])"
  have ra: "length (shape a) \<noteq> 0" "length (shape a) \<noteq> 1"
    and rb: "length (shape b) \<noteq> 0" "length (shape b) \<noteq> 1"
    by (simp_all add: a b)
  have "matmul a b = Inr ((tabulate (bs @ [n, m]) ?f)\<lparr>shape := bs @ [n] @ [m]\<rparr>)"
    by (simp add: matmul_def Let_def a b broadcast_shapes_same butlast_append
        shape_update_same [OF a] shape_update_same [OF b])
  also have "(tabulate (bs @ [n, m]) ?f)\<lparr>shape := bs @ [n] @ [m]\<rparr> = tabulate (bs @ [n, m]) ?f"
    by (rule shape_update_same) simp
  also have "tabulate (bs @ [n, m]) ?f = tab2 bs n m
    (\<lambda>pre i j. sum_list (map (\<lambda>t. elem a (pre @ [i, t]) * elem b (pre @ [t, j])) [0..<k]))"
    by (rule tabulate_tab2) (simp add: butlast_append bidx_same Let_def)
  finally show ?thesis .
qed


lemma broadcast_rev_props:
  "broadcast_rev xs ys = Some zs \<Longrightarrow>
     length zs = max (length xs) (length ys)
     \<and> (\<forall>k < length ys. ys ! k = zs ! k \<or> ys ! k = 1)
     \<and> (\<forall>k < length xs. xs ! k = zs ! k \<or> xs ! k = 1)"
proof (induction xs ys arbitrary: zs rule: broadcast_rev.induct)
  case (1 ys)
  then show ?case by simp
next
  case (2 x xs)
  then show ?case by simp
next
  case (3 x xs y ys)
  show ?case
  proof (cases "x = y \<or> y = 1")
    case True
    with "3.prems" obtain zs' where z: "broadcast_rev xs ys = Some zs'" "zs = x # zs'"
      by auto
    from "3.IH"(1) [OF True z(1)] True show ?thesis
      by (auto simp: z(2) nth_Cons split: nat.splits)
  next
    case False
    with "3.prems" have x1: "x = 1" by (auto split: if_splits)
    with False "3.prems" obtain zs' where z: "broadcast_rev xs ys = Some zs'" "zs = y # zs'"
      by auto
    from "3.IH"(2) [OF False x1 z(1)] x1 show ?thesis
      by (auto simp: z(2) nth_Cons split: nat.splits)
  qed
qed

lemma valid_index_bidx_right:
  assumes bc: "broadcast_shapes a b = Some c" and v: "valid_index c idx"
  shows "valid_index b (bidx b idx)"
proof -
  from bc have r: "broadcast_rev (rev a) (rev b) = Some (rev c)"
    by (auto simp: broadcast_shapes_def)
  from broadcast_rev_props [OF r]
  have len: "length c = max (length a) (length b)"
    and el: "\<And>k. k < length b \<Longrightarrow> rev b ! k = rev c ! k \<or> rev b ! k = 1"
    by auto
  have li: "length idx = length c" using v by (rule valid_index_length)
  define off where "off = length idx - length b"
  have lo: "length idx = off + length b" using len li by (simp add: off_def)
  have "list_all2 (<) (map2 (\<lambda>d i. if d = 1 then 0 else i) b (drop off idx)) b"
  proof (rule list_all2_all_nthI)
    show "length (map2 (\<lambda>d i. if d = 1 then 0 else i) b (drop off idx)) = length b"
      using lo by simp
  next
    fix k assume "k < length (map2 (\<lambda>d i. if d = 1 then 0 else i) b (drop off idx))"
    then have k: "k < length b" by simp
    have nk: "map2 (\<lambda>d i. if d = 1 then 0 else i) b (drop off idx) ! k
      = (if b ! k = 1 then 0 else idx ! (off + k))"
      using k lo by simp
    have "rev b ! (length b - 1 - k) = rev c ! (length b - 1 - k) \<or> rev b ! (length b - 1 - k) = 1"
      using k by (intro el) simp
    moreover have "rev b ! (length b - 1 - k) = b ! k"
      using k by (simp add: rev_nth)
    moreover have "rev c ! (length b - 1 - k) = c ! (off + k)"
    proof -
      have "length b - 1 - k < length c" using k lo li by simp
      then have "rev c ! (length b - 1 - k) = c ! (length c - Suc (length b - 1 - k))"
        by (rule rev_nth)
      also have "length c - Suc (length b - 1 - k) = off + k" using k lo li by simp
      finally show ?thesis .
    qed
    ultimately have bk: "b ! k = c ! (off + k) \<or> b ! k = 1" by simp
    have "idx ! (off + k) < c ! (off + k)"
      using v k lo li by (intro valid_index_nth) simp_all
    with bk show "map2 (\<lambda>d i. if d = 1 then 0 else i) b (drop off idx) ! k < b ! k"
      unfolding nk by auto
  qed
  then show ?thesis by (simp add: valid_index_def bidx_def off_def)
qed

lemma elem_tmap:
  "well_formed t \<Longrightarrow> valid_index (shape t) idx \<Longrightarrow> elem (tmap f t) idx = f (elem t idx)"
  by (simp add: elem_def tmap_def well_formed_def valid_index_def ravel_less)

lemma masked_fill_tab2:
  assumes bc: "broadcast_shapes (bs @ [n, m]) (shape mk) = Some (bs @ [n, m])"
    and wf: "well_formed mk"
  shows "masked_fill (tab2 bs n m g) (eq_scalar mk False) v
    = Inr (tab2 bs n m (\<lambda>pre i j. if \<not> elem mk (bidx (shape mk) (pre @ [i, j])) then v
                                    else g pre i j))"
proof -
  let ?e = "eq_scalar mk False"
  have se: "shape ?e = shape mk" by (simp add: eq_scalar_def tmap_def)
  have "masked_fill (tab2 bs n m g) ?e v = Inr (tabulate (bs @ [n, m])
    (\<lambda>idx. if elem ?e (bidx (shape mk) idx) then v
            else elem (tab2 bs n m g) (bidx (bs @ [n, m]) idx)))"
    unfolding masked_fill_def broadcast_op_def shape_tab2 se bc by simp
  also have "tabulate (bs @ [n, m])
    (\<lambda>idx. if elem ?e (bidx (shape mk) idx) then v
            else elem (tab2 bs n m g) (bidx (bs @ [n, m]) idx))
    = tab2 bs n m (\<lambda>pre i j. if \<not> elem mk (bidx (shape mk) (pre @ [i, j])) then v
                                    else g pre i j)"
  proof (rule tabulate_tab2)
    fix pre i j assume h: "valid_index bs pre" "i < n" "j < m"
    then have v: "valid_index (bs @ [n, m]) (pre @ [i, j])" by (simp add: valid_index_snoc2)
    have "valid_index (shape mk) (bidx (shape mk) (pre @ [i, j]))"
      using bc v by (rule valid_index_bidx_right)
    then have "elem ?e (bidx (shape mk) (pre @ [i, j]))
      = (\<not> elem mk (bidx (shape mk) (pre @ [i, j])))"
      unfolding eq_scalar_def using wf by (simp add: elem_tmap)
    then show "(if elem ?e (bidx (shape mk) (pre @ [i, j])) then v
        else elem (tab2 bs n m g) (bidx (bs @ [n, m]) (pre @ [i, j])))
      = (if \<not> elem mk (bidx (shape mk) (pre @ [i, j])) then v else g pre i j)"
      using h by (simp add: bidx_same [OF v] elem_tab2)
  qed
  finally show ?thesis .
qed

lemma lane_tab2:
  assumes "valid_index bs pre" "i < n"
  shows "lane (tab2 bs n m g) (pre @ [i, j]) = map (g pre i) [0..<m]"
  using assms by (simp add: lane_def butlast_append elem_tab2)

lemma softmax_last_tab2:
  "softmax_last (tab2 bs n m g)
    = tab2 bs n m (\<lambda>pre i j. exp (g pre i j) / sum_list (map (\<lambda>j'. exp (g pre i j')) [0..<m]))"
  unfolding softmax_last_def shape_tab2
  by (rule tabulate_tab2) (simp add: elem_tab2 lane_tab2 comp_def)

lemma shape_Dropout_forward [simp]: "shape (Dropout_forward d x) = shape x"
  by (simp add: Dropout_forward_def tmap_def)


lemma attention_scores_tab2:
  assumes q: "shape query = bs @ [n, d]" and k: "shape key = bs @ [m, d]"
    and mk: "case msk of None \<Rightarrow> True
             | Some mk \<Rightarrow> broadcast_shapes (bs @ [n, m]) (shape mk) = Some (bs @ [n, m])
                          \<and> well_formed mk"
  shows "attention_scores query key msk = Inr (tab2 bs n m (\<lambda>pre i j.
           if (case msk of None \<Rightarrow> False
               | Some mk \<Rightarrow> \<not> elem mk (bidx (shape mk) (pre @ [i, j])))
           then - 1000000000
           else sum_list (map (\<lambda>t. elem query (pre @ [i, t]) * elem key (pre @ [j, t])) [0..<d])
                  / sqrt (real d)))"
proof -
  let ?kt = "tab2 bs d m (\<lambda>pre a b. elem key (pre @ [b, a]))"
  let ?dot = "\<lambda>pre i j. sum_list (map (\<lambda>t. elem query (pre @ [i, t]) * elem key (pre @ [j, t])) [0..<d])"
  have s: "size_dim query (- 1) = Inr d"
    by (rule size_dim_last [where bs = "bs @ [n]"]) (simp add: q)
  have t: "transpose_t key (- 2) (- 1) = Inr ?kt"
    using k by (rule transpose_last2)
  have "matmul query ?kt = Inr (tab2 bs n m
    (\<lambda>pre i j. sum_list (map (\<lambda>t. elem query (pre @ [i, t]) * elem ?kt (pre @ [t, j])) [0..<d])))"
    using q by (rule matmul_batched) simp
  also have "tab2 bs n m
    (\<lambda>pre i j. sum_list (map (\<lambda>t. elem query (pre @ [i, t]) * elem ?kt (pre @ [t, j])) [0..<d]))
    = tab2 bs n m ?dot"
  proof (rule tab2_cong)
    fix pre i j assume h: "valid_index bs pre" "i < n" "j < m"
    have "map (\<lambda>t. elem query (pre @ [i, t]) * elem ?kt (pre @ [t, j])) [0..<d]
      = map (\<lambda>t. elem query (pre @ [i, t]) * elem key (pre @ [j, t])) [0..<d]"
      by (rule map_cong) (simp_all add: elem_tab2 h)
    then show "sum_list (map (\<lambda>t. elem query (pre @ [i, t]) * elem ?kt (pre @ [t, j])) [0..<d])
      = ?dot pre i j" by (rule arg_cong [where f = sum_list])
  qed
  finally have mm: "matmul query ?kt = Inr (tab2 bs n m ?dot)" .
  have dv: "div_scalar (tab2 bs n m ?dot) (sqrt (real d))
    = tab2 bs n m (\<lambda>pre i j. ?dot pre i j / sqrt (real d))"
    by (simp add: div_scalar_def tmap_tab2)
  show ?thesis
  proof (cases msk)
    case None
    then show ?thesis
      by (simp add: attention_scores_def bind_e_def s t mm dv Let_def)
  next
    case (Some mk')
    with mk have bc: "broadcast_shapes (bs @ [n, m]) (shape mk') = Some (bs @ [n, m])"
      and wf: "well_formed mk'" by simp_all
    show ?thesis
      by (simp add: attention_scores_def bind_e_def s t mm dv Let_def Some
          masked_fill_tab2 [OF bc wf])
  qed
qed

lemma attention_tab2:
  assumes q: "shape query = bs @ [n, d]" and k: "shape key = bs @ [m, d]"
    and v: "shape value = bs @ [m, dv]"
    and sc: "attention_scores query key msk = Inr scores" and ss: "shape scores = bs @ [n, m]"
  shows "attention query key value msk dropout =
    (let w = (case dropout of None \<Rightarrow> softmax_last scores
              | Some dp \<Rightarrow> Dropout_forward dp (softmax_last scores))
     in Inr (tab2 bs n dv (\<lambda>pre i c.
               sum_list (map (\<lambda>j. elem w (pre @ [i, j]) * elem value (pre @ [j, c])) [0..<m])), w))"
proof -
  let ?w = "case dropout of None \<Rightarrow> softmax_last scores
              | Some dp \<Rightarrow> Dropout_forward dp (softmax_last scores)"
  have sw: "shape ?w = bs @ [n, m]"
    by (simp add: ss softmax_last_def split: option.split)
  have "matmul ?w value = Inr (tab2 bs n dv (\<lambda>pre i c.
               sum_list (map (\<lambda>j. elem ?w (pre @ [i, j]) * elem value (pre @ [j, c])) [0..<m])))"
    using sw v by (rule matmul_batched)
  then show ?thesis
    by (simp add: attention_def sc bind_e_def Let_def)
qed

text \<open>
  Claim C1. With \<open>d_k\<close> the size of the last axis of the query, \<open>attention\<close> computes the
  scores \<open>(query \<cdot> key\<^sup>T) / sqrt d_k\<close>, overwrites the score with \<open>-10\<^sup>9\<close> wherever
  the mask is false, takes the softmax over the key axis, and returns the pair of the
  weighted sums \<open>weights \<cdot> value\<close> and the weights. The weights returned are the softmax
  itself when no dropout module is passed, and the softmax after dropout otherwise. The
  hypothesis \<open>0 < d\<close> excludes the division by \<open>sqrt 0\<close>.
\<close>

theorem attention_scaled_dot_product:
  assumes q: "shape query = bs @ [n, d]" and k: "shape key = bs @ [m, d]"
    and v: "shape value = bs @ [m, dv]" and d: "0 < d"
    and mk: "case msk of None \<Rightarrow> True
             | Some mk \<Rightarrow> broadcast_shapes (bs @ [n, m]) (shape mk) = Some (bs @ [n, m])
                          \<and> well_formed mk"
  shows "\<exists>scores w out.
      size_dim query (- 1) = Inr d
    \<and> attention_scores query key msk = Inr scores
    \<and> attention query key value msk dropout = Inr (out, w)
    \<and> shape scores = bs @ [n, m] \<and> shape w = bs @ [n, m] \<and> shape out = bs @ [n, dv]
    \<and> w = (case dropout of None \<Rightarrow> softmax_last scores
                          | Some dp \<Rightarrow> Dropout_forward dp (softmax_last scores))
    \<and> (\<forall>pre i j. valid_index bs pre \<and> i < n \<and> j < m \<longrightarrow>
          elem scores (pre @ [i, j])
            = (if (case msk of None \<Rightarrow> False
                              | Some mk \<Rightarrow> \<not> elem mk (bidx (shape mk) (pre @ [i, j])))
               then - 1000000000
               else sum_list (map (\<lambda>t. elem query (pre @ [i, t]) * elem key (pre @ [j, t])) [0..<d])
                      / sqrt (real d))
        \<and> elem (softmax_last scores) (pre @ [i, j])
            = exp (elem scores (pre @ [i, j]))
                / sum_list (map (\<lambda>j'. exp (elem scores (pre @ [i, j']))) [0..<m]))
    \<and> (\<forall>pre i c. valid_index bs pre \<and> i < n \<and> c < dv \<longrightarrow>
          elem out (pre @ [i, c])
            = sum_list (map (\<lambda>j. elem w (pre @ [i, j]) * elem value (pre @ [j, c])) [0..<m]))"
proof -
  let ?g = "\<lambda>pre i j.
           if (case msk of None \<Rightarrow> False
               | Some mk \<Rightarrow> \<not> elem mk (bidx (shape mk) (pre @ [i, j])))
           then - 1000000000
           else sum_list (map (\<lambda>t. elem query (pre @ [i, t]) * elem key (pre @ [j, t])) [0..<d])
                  / sqrt (real d)"
  let ?scores = "tab2 bs n m ?g"
  let ?w = "case dropout of None \<Rightarrow> softmax_last ?scores
              | Some dp \<Rightarrow> Dropout_forward dp (softmax_last ?scores)"
  let ?out = "tab2 bs n dv (\<lambda>pre i c.
               sum_list (map (\<lambda>j. elem ?w (pre @ [i, j]) * elem value (pre @ [j, c])) [0..<m]))"
  have s: "size_dim query (- 1) = Inr d"
    by (rule size_dim_last [where bs = "bs @ [n]"]) (simp add: q)
  have sc: "attention_scores query key msk = Inr ?scores"
    using q k mk by (rule attention_scores_tab2)
  have at: "attention query key value msk dropout = Inr (?out, ?w)"
    using attention_tab2 [OF q k v sc shape_tab2, of dropout] by (simp add: Let_def)
  have sw: "shape ?w = bs @ [n, m]"
    by (simp add: softmax_last_def split: option.split)
  have e1: "elem ?scores (pre @ [i, j]) = ?g pre i j"
    if "valid_index bs pre" "i < n" "j < m" for pre i j
    using that by (rule elem_tab2)
  have e2: "elem (softmax_last ?scores) (pre @ [i, j])
            = exp (elem ?scores (pre @ [i, j]))
                / sum_list (map (\<lambda>j'. exp (elem ?scores (pre @ [i, j']))) [0..<m])"
    if h: "valid_index bs pre" "i < n" "j < m" for pre i j
  proof -
    have mp: "map (\<lambda>j'. exp (elem ?scores (pre @ [i, j']))) [0..<m]
      = map (\<lambda>j'. exp (?g pre i j')) [0..<m]"
      by (rule map_cong) (simp_all add: e1 h)
    have "elem (softmax_last ?scores) (pre @ [i, j])
      = exp (?g pre i j) / sum_list (map (\<lambda>j'. exp (?g pre i j')) [0..<m])"
      unfolding softmax_last_tab2 by (rule elem_tab2 [OF h])
    then show ?thesis by (simp only: e1 [OF h] mp)
  qed
  have e3: "elem ?out (pre @ [i, c])
            = sum_list (map (\<lambda>j. elem ?w (pre @ [i, j]) * elem value (pre @ [j, c])) [0..<m])"
    if "valid_index bs pre" "i < n" "c < dv" for pre i c
    using that by (rule elem_tab2)
  show ?thesis
    apply (rule exI [of _ ?scores], rule exI [of _ ?w], rule exI [of _ ?out])
    apply (intro conjI allI impI)
    subgoal by (rule s)
    subgoal by (rule sc)
    subgoal by (rule at)
    subgoal by (rule shape_tab2)
    subgoal by (rule sw)
    subgoal by (rule shape_tab2)
    subgoal by (rule refl)
    subgoal for pre i j using e1 [of pre i j] by blast
    subgoal for pre i j using e2 [of pre i j] by blast
    subgoal for pre i c using e3 [of pre i c] by blast
    done
qed


theorem attention_scaled_dot_product_witness:
  "\<exists>scores w out.
      attention_scores \<lparr>shape = [1, 1], data = [1]\<rparr> \<lparr>shape = [2, 1], data = [3, 5]\<rparr>
        (Some \<lparr>shape = [1, 2], data = [True, False]\<rparr>) = Inr scores
    \<and> attention \<lparr>shape = [1, 1], data = [1]\<rparr> \<lparr>shape = [2, 1], data = [3, 5]\<rparr>
        \<lparr>shape = [2, 1], data = [7, 9]\<rparr> (Some \<lparr>shape = [1, 2], data = [True, False]\<rparr>) None
        = Inr (out, w)
    \<and> w = softmax_last scores \<and> shape out = [1, 1]
    \<and> elem scores [0, 0] = 3 \<and> elem scores [0, 1] = - 1000000000"
proof -
  let ?q = "\<lparr>shape = [1, 1], data = [1::real]\<rparr>"
  let ?k = "\<lparr>shape = [2, 1], data = [3, 5::real]\<rparr>"
  let ?v = "\<lparr>shape = [2, 1], data = [7, 9::real]\<rparr>"
  let ?m = "\<lparr>shape = [1, 2], data = [True, False]\<rparr>"
  have q: "shape ?q = [] @ [1, 1]" and k: "shape ?k = [] @ [2, 1]" and v: "shape ?v = [] @ [2, 1]"
    by simp_all
  have mk: "case Some ?m of None \<Rightarrow> True
             | Some mk \<Rightarrow> broadcast_shapes ([] @ [1, 2]) (shape mk) = Some ([] @ [1, 2])
                          \<and> well_formed mk"
    by (simp add: broadcast_shapes_same well_formed_def)
  from attention_scaled_dot_product [OF q k v _ mk, of None]
  obtain scores w out where
    a: "attention_scores ?q ?k (Some ?m) = Inr scores"
       "attention ?q ?k ?v (Some ?m) None = Inr (out, w)"
       "w = softmax_last scores" "shape out = [1, 1]"
    and e: "\<And>pre i j. valid_index [] pre \<and> i < 1 \<and> j < 2 \<Longrightarrow>
          elem scores (pre @ [i, j])
            = (if \<not> elem ?m (bidx (shape ?m) (pre @ [i, j]))
               then - 1000000000
               else sum_list (map (\<lambda>t. elem ?q (pre @ [i, t]) * elem ?k (pre @ [j, t])) [0..<1])
                      / sqrt (real 1))"
    by force
  have "elem scores [0, 0] = 3"
    using e [of "[]" 0 0] by (simp add: valid_index_def bidx_def elem_def)
  moreover have "elem scores [0, 1] = - 1000000000"
    using e [of "[]" 0 1] by (simp add: valid_index_def bidx_def elem_def)
  ultimately show ?thesis using a by blast
qed

section \<open>Rows of the attention weights\<close>

lemma Dropout_forward_disabled:
  "\<not> training dp \<or> p_drop dp \<le> 0 \<Longrightarrow> Dropout_forward dp x = x"
  by (auto simp: Dropout_forward_def)













section \<open>A fully masked row\<close>

text \<open>
  Claim C10. When dropout is inactive and the mask is false at every key position of a
  query row, every score of that row is the same sentinel \<open>-10\<^sup>9\<close>, the weights of the
  row are uniform, \<open>1 / key_len\<close> each, and the output row is the average of the value
  rows. In this model all values are real numbers, so none of them is a NaN or an infinity.
\<close>

theorem attention_fully_masked_row:
  assumes q: "shape query = bs @ [n, d]" and k: "shape key = bs @ [m, d]"
    and v: "shape value = bs @ [m, dv]"
    and bc: "broadcast_shapes (bs @ [n, m]) (shape mk) = Some (bs @ [n, m])"
    and wf: "well_formed mk"
    and dr: "case dropout of None \<Rightarrow> True | Some dp \<Rightarrow> \<not> training dp \<or> p_drop dp \<le> 0"
    and pre: "valid_index bs pre" and i: "i < n" and m: "0 < m"
    and masked: "\<forall>j < m. \<not> elem mk (bidx (shape mk) (pre @ [i, j]))"
  shows "\<exists>scores w out.
      attention_scores query key (Some mk) = Inr scores
    \<and> attention query key value (Some mk) dropout = Inr (out, w)
    \<and> (\<forall>j < m. elem scores (pre @ [i, j]) = - 1000000000 \<and> elem w (pre @ [i, j]) = 1 / real m)
    \<and> (\<forall>c < dv. elem out (pre @ [i, c])
          = sum_list (map (\<lambda>j. elem value (pre @ [j, c])) [0..<m]) / real m)"
proof -
  let ?g = "\<lambda>pre i j.
           if \<not> elem mk (bidx (shape mk) (pre @ [i, j]))
           then - 1000000000
           else sum_list (map (\<lambda>t. elem query (pre @ [i, t]) * elem key (pre @ [j, t])) [0..<d])
                  / sqrt (real d)"
  let ?scores = "tab2 bs n m ?g"
  let ?w = "softmax_last ?scores"
  let ?out = "tab2 bs n dv (\<lambda>pre i c.
               sum_list (map (\<lambda>j. elem ?w (pre @ [i, j]) * elem value (pre @ [j, c])) [0..<m]))"
  have sc: "attention_scores query key (Some mk) = Inr ?scores"
    using attention_scores_tab2 [OF q k, of "Some mk"] bc wf by simp
  have dw: "(case dropout of None \<Rightarrow> ?w | Some dp \<Rightarrow> Dropout_forward dp ?w) = ?w"
    using dr by (auto simp: Dropout_forward_disabled split: option.splits)
  have at: "attention query key value (Some mk) dropout = Inr (?out, ?w)"
    using attention_tab2 [OF q k v sc shape_tab2, of dropout] by (simp add: Let_def dw)
  have g: "?g pre i j = - 1000000000" if "j < m" for j
    using masked that by simp
  have es: "elem ?scores (pre @ [i, j]) = - 1000000000" if "j < m" for j
    using elem_tab2 [OF pre i that, of ?g] g [OF that] by simp
  have mp: "map (\<lambda>j'. exp (?g pre i j')) [0..<m] = map (\<lambda>j'. exp (- 1000000000)) [0..<m]"
    by (rule map_cong) (simp_all add: g)
  have ew: "elem ?w (pre @ [i, j]) = 1 / real m" if "j < m" for j
  proof -
    have "elem ?w (pre @ [i, j])
      = exp (?g pre i j) / sum_list (map (\<lambda>j'. exp (?g pre i j')) [0..<m])"
      unfolding softmax_last_tab2 by (rule elem_tab2 [OF pre i that])
    also have "\<dots> = exp (- 1000000000) / (real m * exp (- 1000000000))"
      unfolding mp g [OF that] by (simp add: sum_list_triv)
    finally show ?thesis using m by simp
  qed
  have eo: "elem ?out (pre @ [i, c])
    = sum_list (map (\<lambda>j. elem value (pre @ [j, c])) [0..<m]) / real m" if "c < dv" for c
  proof -
    have "elem ?out (pre @ [i, c])
      = sum_list (map (\<lambda>j. elem ?w (pre @ [i, j]) * elem value (pre @ [j, c])) [0..<m])"
      by (rule elem_tab2 [OF pre i that])
    also have "map (\<lambda>j. elem ?w (pre @ [i, j]) * elem value (pre @ [j, c])) [0..<m]
      = map (\<lambda>j. (1 / real m) * elem value (pre @ [j, c])) [0..<m]"
      by (rule map_cong) (simp_all add: ew)
    also have "sum_list (map (\<lambda>j. (1 / real m) * elem value (pre @ [j, c])) [0..<m])
      = (1 / real m) * sum_list (map (\<lambda>j. elem value (pre @ [j, c])) [0..<m])"
      by (rule sum_list_const_mult)
    finally show ?thesis by simp
  qed
  show ?thesis
    apply (rule exI [of _ ?scores], rule exI [of _ ?w], rule exI [of _ ?out])
    using sc at es ew eo by blast
qed


theorem attention_fully_masked_row_witness:
  "\<exists>scores w out.
      attention_scores \<lparr>shape = [1, 1], data = [1]\<rparr> \<lparr>shape = [2, 1], data = [3, 5]\<rparr>
        (Some \<lparr>shape = [1, 2], data = [False, False]\<rparr>) = Inr scores
    \<and> attention \<lparr>shape = [1, 1], data = [1]\<rparr> \<lparr>shape = [2, 1], data = [3, 5]\<rparr>
        \<lparr>shape = [2, 1], data = [7, 9]\<rparr> (Some \<lparr>shape = [1, 2], data = [False, False]\<rparr>) None
        = Inr (out, w)
    \<and> elem scores [0, 0] = - 1000000000 \<and> elem scores [0, 1] = - 1000000000
    \<and> elem w [0, 0] = 1 / 2 \<and> elem w [0, 1] = 1 / 2 \<and> elem out [0, 0] = 8"
proof -
  let ?q = "\<lparr>shape = [1, 1], data = [1::real]\<rparr>"
  let ?k = "\<lparr>shape = [2, 1], data = [3, 5::real]\<rparr>"
  let ?v = "\<lparr>shape = [2, 1], data = [7, 9::real]\<rparr>"
  let ?m = "\<lparr>shape = [1, 2], data = [False, False]\<rparr>"
  have q: "shape ?q = [] @ [1, 1]" and k: "shape ?k = [] @ [2, 1]" and v: "shape ?v = [] @ [2, 1]"
    by simp_all
  have bc: "broadcast_shapes ([] @ [1, 2]) (shape ?m) = Some ([] @ [1, 2])"
    by (simp add: broadcast_shapes_same)
  have wf: "well_formed ?m" by (simp add: well_formed_def)
  have dr: "case None of None \<Rightarrow> True | Some dp \<Rightarrow> \<not> training dp \<or> p_drop dp \<le> 0"
    by simp
  have pre: "valid_index [] []" by (simp add: valid_index_def)
  have masked: "\<forall>j < 2. \<not> elem ?m (bidx (shape ?m) ([] @ [0, j]))"
    by (simp add: elem_def bidx_def less_Suc_eq numeral_2_eq_2)
  from attention_fully_masked_row [OF q k v bc wf dr pre _ _ masked]
  obtain scores w out where
    a: "attention_scores ?q ?k (Some ?m) = Inr scores"
       "attention ?q ?k ?v (Some ?m) None = Inr (out, w)"
    and e: "\<forall>j < 2. elem scores ([] @ [0, j]) = - 1000000000 \<and> elem w ([] @ [0, j]) = 1 / real 2"
    and o: "\<forall>c < 1. elem out ([] @ [0, c])
          = sum_list (map (\<lambda>j. elem ?v ([] @ [j, c])) [0..<2]) / real 2"
    by auto
  have "elem scores [0, 0] = - 1000000000" "elem w [0, 0] = 1 / 2"
    using e [rule_format, of 0] by simp_all
  moreover have "elem scores [0, 1] = - 1000000000" "elem w [0, 1] = 1 / 2"
    using e [rule_format, of 1] by simp_all
  moreover have "elem out [0, 0] = 8"
    using o [rule_format, of 0] by (simp add: elem_def upt_conv_Cons)
  ultimately show ?thesis using a by blast
qed

section \<open>Positional encoding and the length of the input\<close>

lemma size_dim_1_rank3: "shape x = [B, L, D] \<Longrightarrow> size_dim x 1 = Inr L"
  by (simp add: size_dim_def norm_dim_def bind_e_def)

lemma slice_dim1_rank3:
  "shape t = [A, M, D] \<Longrightarrow> slice_dim1 t n = Inr (tabulate [A, min n M, D] (elem t))"
  by (simp add: slice_dim1_def)

lemma broadcast_shapes_batch:
  "broadcast_shapes [B, L, D] [1, L, D] = Some [B, L, D]"
  by (simp add: broadcast_shapes_def)

lemma broadcast_shapes_length_clash:
  "M < L \<Longrightarrow> 2 \<le> M \<Longrightarrow> broadcast_shapes [B, L, D] [A, M, D] = None"
  by (simp add: broadcast_shapes_def)

text \<open>
  Claim C9, as amended. \<open>PositionalEncoding.forward\<close> has no length check of its own: it
  slices the table to at most \<open>max_len\<close> rows and adds it to the input, and the addition
  raises when the two lengths cannot be broadcast. For a table of shape
  \<open>(1, max_len, d_model)\<close> and an input of shape \<open>(batch, len, d_model)\<close>: if
  \<open>len \<le> max_len\<close> the result is the input plus the table entries of the positions
  \<open>0..len-1\<close>, passed through dropout; if \<open>len > max_len\<close> and \<open>max_len \<ge> 2\<close> (as with
  the default 5000) the call fails with a shape error. With \<open>max_len = 1\<close> the single
  table row is broadcast over every position and no error is raised (see the
  counterexample below).
\<close>

theorem PositionalEncoding_forward_length:
  assumes p: "shape (pe pos) = [1, M, D]" and x: "shape x = [B, L, D]"
  shows "max_len pos = M
    \<and> (L \<le> M \<longrightarrow>
        (\<exists>y. PositionalEncoding_forward pos x = Inr (Dropout_forward (pe_dropout pos) y)
           \<and> shape y = [B, L, D]
           \<and> (\<forall>b i j. b < B \<and> i < L \<and> j < D \<longrightarrow>
                 elem y [b, i, j] = elem x [b, i, j] + elem (pe pos) [0, i, j])))
    \<and> (M < L \<and> 2 \<le> M \<longrightarrow> PositionalEncoding_forward pos x = Inl RuntimeError)"
proof (intro conjI impI)
  show "max_len pos = M" by (simp add: max_len_def p)
next
  assume le: "L \<le> M"
  let ?tbl = "tabulate [1, L, D] (elem (pe pos))"
  let ?y = "tabulate [B, L, D] (\<lambda>idx. elem x (bidx [B, L, D] idx) + elem ?tbl (bidx [1, L, D] idx))"
  have sl: "slice_dim1 (pe pos) L = Inr ?tbl"
    using slice_dim1_rank3 [OF p, of L] le by (simp add: min_absorb1)
  have ad: "add x ?tbl = Inr ?y"
    unfolding add_def broadcast_op_def x shape_tabulate broadcast_shapes_batch by simp
  have f: "PositionalEncoding_forward pos x = Inr (Dropout_forward (pe_dropout pos) ?y)"
    unfolding PositionalEncoding_forward_def size_dim_1_rank3 [OF x] bind_e_def sum.case sl ad ..
  have e: "elem ?y [b, i, j] = elem x [b, i, j] + elem (pe pos) [0, i, j]"
    if h: "b < B \<and> i < L \<and> j < D" for b i j
  proof -
    have v: "valid_index [B, L, D] [b, i, j]" using h by (simp add: valid_index_def)
    have b1: "bidx [1, L, D] [b, i, j] = [0, i, j]" using h by (auto simp: bidx_def)
    have "elem ?tbl [0, i, j] = elem (pe pos) [0, i, j]"
      by (rule elem_tabulate) (use h in \<open>simp add: valid_index_def\<close>)
    then show ?thesis
      unfolding elem_tabulate [OF v] bidx_same [OF v] b1 by simp
  qed
  show "\<exists>y. PositionalEncoding_forward pos x = Inr (Dropout_forward (pe_dropout pos) y)
           \<and> shape y = [B, L, D]
           \<and> (\<forall>b i j. b < B \<and> i < L \<and> j < D \<longrightarrow>
                 elem y [b, i, j] = elem x [b, i, j] + elem (pe pos) [0, i, j])"
    using f e by (intro exI [of _ ?y]) simp
next
  assume h: "M < L \<and> 2 \<le> M"
  have sl: "slice_dim1 (pe pos) L = Inr (tabulate [1, M, D] (elem (pe pos)))"
    using slice_dim1_rank3 [OF p, of L] h by (simp add: min_absorb2)
  have ad: "add x (tabulate [1, M, D] (elem (pe pos))) = Inl RuntimeError"
    unfolding add_def broadcast_op_def x shape_tabulate
    using h by (simp add: broadcast_shapes_length_clash)
  show "PositionalEncoding_forward pos x = Inl RuntimeError"
    unfolding PositionalEncoding_forward_def size_dim_1_rank3 [OF x] bind_e_def sum.case sl ad ..
qed


lemmas positional_eval =
  tabulate_def elem_def bidx_def add_def broadcast_op_def broadcast_shapes_def Let_def bind_e_def
  size_dim_def norm_dim_def slice_dim1_def Dropout_forward_def

text \<open>
  A table with \<open>max_len = 1\<close> and an input of length 2: the call returns, with the entry
  of position 0 added at both positions.
\<close>

theorem PositionalEncoding_forward_length_counterexample:
  "max_len \<lparr>pe_dropout = \<lparr>p_drop = 1 / 10, training = False, keep = \<lambda>_. True\<rparr>,
            pe = \<lparr>shape = [1, 1, 2], data = [0, 1]\<rparr>\<rparr> = 1
   \<and> size_dim \<lparr>shape = [1, 2, 2], data = [0, 0, 0, 0 :: real]\<rparr> 1 = Inr 2
   \<and> PositionalEncoding_forward
        \<lparr>pe_dropout = \<lparr>p_drop = 1 / 10, training = False, keep = \<lambda>_. True\<rparr>,
         pe = \<lparr>shape = [1, 1, 2], data = [0, 1]\<rparr>\<rparr>
        \<lparr>shape = [1, 2, 2], data = [0, 0, 0, 0]\<rparr>
      = Inr \<lparr>shape = [1, 2, 2], data = [0, 1, 0, 1]\<rparr>"
  by (simp add: max_len_def PositionalEncoding_forward_def positional_eval upt_conv_Cons)

theorem PositionalEncoding_forward_length_witness:
  "PositionalEncoding_forward
        \<lparr>pe_dropout = \<lparr>p_drop = 1 / 10, training = False, keep = \<lambda>_. True\<rparr>,
         pe = \<lparr>shape = [1, 2, 2], data = [0, 1, sin 1, cos 1]\<rparr>\<rparr>
        \<lparr>shape = [1, 3, 2], data = [0, 0, 0, 0, 0, 0]\<rparr> = Inl RuntimeError
   \<and> (\<exists>y. PositionalEncoding_forward
        \<lparr>pe_dropout = \<lparr>p_drop = 1 / 10, training = False, keep = \<lambda>_. True\<rparr>,
         pe = \<lparr>shape = [1, 2, 2], data = [0, 1, sin 1, cos 1]\<rparr>\<rparr>
        \<lparr>shape = [1, 2, 2], data = [5, 6, 7, 8]\<rparr> = Inr y
      \<and> shape y = [1, 2, 2] \<and> elem y [0, 0, 1] = 7 \<and> elem y [0, 1, 0] = 7 + sin 1)"
proof -
  let ?P = "\<lparr>pe_dropout = \<lparr>p_drop = 1 / 10, training = False, keep = \<lambda>_. True\<rparr>,
         pe = \<lparr>shape = [1, 2, 2], data = [0, 1, sin 1, cos 1 :: real]\<rparr>\<rparr>"
  let ?x3 = "\<lparr>shape = [1, 3, 2], data = [0, 0, 0, 0, 0, 0 :: real]\<rparr>"
  let ?x2 = "\<lparr>shape = [1, 2, 2], data = [5, 6, 7, 8 :: real]\<rparr>"
  have p: "shape (pe ?P) = [1, 2, 2]" by simp
  have "PositionalEncoding_forward ?P ?x3 = Inl RuntimeError"
    using PositionalEncoding_forward_length [OF p, of ?x3 1 3] by simp
  moreover
  from PositionalEncoding_forward_length [OF p, of ?x2 1 2]
  obtain y where y: "PositionalEncoding_forward ?P ?x2 = Inr (Dropout_forward (pe_dropout ?P) y)"
    "shape y = [1, 2, 2]"
    and e: "\<And>b i j. b < 1 \<and> i < 2 \<and> j < 2 \<Longrightarrow>
                 elem y [b, i, j] = elem ?x2 [b, i, j] + elem (pe ?P) [0, i, j]"
    by auto
  have dy: "Dropout_forward (pe_dropout ?P) y = y" by (simp add: Dropout_forward_def)
  have "elem y [0, 0, 1] = 7" using e [of 0 0 1] by (simp add: elem_def)
  moreover have "elem y [0, 1, 0] = 7 + sin 1" using e [of 0 1 0] by (simp add: elem_def)
  ultimately show ?thesis using y dy by auto
qed

section \<open>The residual connection around a sublayer\<close>

lemma add_same_shape:
  assumes "shape y = shape x"
  shows "add x y = Inr (tabulate (shape x) (\<lambda>idx. elem x idx + elem y idx))"
  unfolding add_def
  by (rule broadcast_op_tabulate) (simp_all add: assms broadcast_shapes_same bidx_same)

lemma tabulate_vec3: "tabulate [3] f = \<lparr>shape = [3], data = [f [0], f [1], f [2]]\<rparr>"
  by (simp add: tabulate_def upt_conv_Cons numeral_2_eq_2)

lemma LayerNorm_forward_example:
  "LayerNorm_forward (LayerNorm_init 3 None) \<lparr>shape = [3], data = [0, 1, 2]\<rparr>
    = Inr \<lparr>shape = [3], data = [- (1000000 / 1000001), 0, 1000000 / 1000001]\<rparr>"
proof -
  let ?x = "\<lparr>shape = [3], data = [0, 1, 2 :: real]\<rparr>"
  let ?l = "LayerNorm_init 3 None"
  let ?f = "\<lambda>idx. elem (a_2 ?l) [last idx] * (elem ?x idx - mean_list (lane ?x idx))
              / (std_list (lane ?x idx) + eps ?l) + elem (b_2 ?l) [last idx]"
  have ln: "lane ?x [j] = [0, 1, 2]" for j
    by (simp add: lane_def elem_def upt_conv_Cons)
  have m: "mean_list [0, 1, 2] = 1" by (simp add: mean_list_def)
  have s: "std_list [0, 1, 2] = 1" by (simp add: std_list_def m)
  have a: "elem (a_2 ?l) [j] = 1" "elem (b_2 ?l) [j] = 0" if "j < 3" for j
    using that by (simp_all add: LayerNorm_init_def elem_tabulate valid_index_def)
  have ep: "eps ?l = 1 / 1000000" by (simp add: LayerNorm_init_def)
  have xk: "elem ?x [0] = 0" "elem ?x [1] = 1" "elem ?x [2] = 2"
    by (simp_all add: elem_def)
  have f: "?f [0] = - (1000000 / 1000001)" "?f [1] = 0" "?f [2] = 1000000 / 1000001"
    unfolding ln m s ep last.simps if_True xk by (simp_all add: a)
  have "LayerNorm_forward ?l ?x = Inr (tabulate ([] @ [3]) ?f)"
    by (rule LayerNorm_forward_tabulate) (simp_all add: LayerNorm_init_def)
  also have "tabulate ([] @ [3]) ?f = \<lparr>shape = [3], data = [?f [0], ?f [1], ?f [2]]\<rparr>"
    unfolding append_Nil by (rule tabulate_vec3)
  finally show ?thesis unfolding f .
qed

text \<open>
  Claim C3. \<open>SublayerConnection.forward\<close> returns \<open>x + dropout (sublayer (norm x))\<close>: the
  normalisation comes first (if it raises, the sublayer is not run), the sublayer is applied
  to the normalised tensor, and what is added to the result of dropout, entry by entry, is
  the input \<open>x\<close> itself, not its normalisation.
\<close>

theorem SublayerConnection_forward_residual:
  "(LayerNorm_forward (sc_norm sc) x = Inl e \<longrightarrow>
      SublayerConnection_forward sc x sublayer s = (s, Inl e))
   \<and> (LayerNorm_forward (sc_norm sc) x = Inr nx \<and> sublayer nx s = (s', Inl e) \<longrightarrow>
      SublayerConnection_forward sc x sublayer s = (s', Inl e))
   \<and> (LayerNorm_forward (sc_norm sc) x = Inr nx \<and> sublayer nx s = (s', Inr y)
        \<and> shape y = shape x \<longrightarrow>
      (\<exists>r. SublayerConnection_forward sc x sublayer s = (s', Inr r) \<and> shape r = shape x
         \<and> (\<forall>idx. valid_index (shape x) idx \<longrightarrow>
               elem r idx = elem x idx + elem (Dropout_forward (sc_dropout sc) y) idx)))"
proof (intro conjI impI)
  assume "LayerNorm_forward (sc_norm sc) x = Inl e"
  then show "SublayerConnection_forward sc x sublayer s = (s, Inl e)"
    by (simp add: SublayerConnection_forward_def)
next
  assume "LayerNorm_forward (sc_norm sc) x = Inr nx \<and> sublayer nx s = (s', Inl e)"
  then show "SublayerConnection_forward sc x sublayer s = (s', Inl e)"
    by (simp add: SublayerConnection_forward_def)
next
  assume h: "LayerNorm_forward (sc_norm sc) x = Inr nx \<and> sublayer nx s = (s', Inr y)
        \<and> shape y = shape x"
  let ?d = "Dropout_forward (sc_dropout sc) y"
  let ?r = "tabulate (shape x) (\<lambda>idx. elem x idx + elem ?d idx)"
  have "shape ?d = shape x" using h by simp
  then have "add x ?d = Inr ?r" by (rule add_same_shape)
  with h have "SublayerConnection_forward sc x sublayer s = (s', Inr ?r)"
    by (simp add: SublayerConnection_forward_def)
  moreover have "\<forall>idx. valid_index (shape x) idx \<longrightarrow> elem ?r idx = elem x idx + elem ?d idx"
    by (simp add: elem_tabulate)
  ultimately show "\<exists>r. SublayerConnection_forward sc x sublayer s = (s', Inr r) \<and> shape r = shape x
         \<and> (\<forall>idx. valid_index (shape x) idx \<longrightarrow>
               elem r idx = elem x idx + elem (Dropout_forward (sc_dropout sc) y) idx)"
    by (intro exI [of _ ?r]) simp
qed

theorem SublayerConnection_forward_residual_witness:
  "\<exists>r. SublayerConnection_forward
       \<lparr>sc_norm = LayerNorm_init 3 None,
        sc_dropout = \<lparr>p_drop = 1 / 10, training = False, keep = \<lambda>_. True\<rparr>\<rparr>
       \<lparr>shape = [3], data = [0, 1, 2]\<rparr> (\<lambda>t s. (s, Inr t)) () = ((), Inr r)
     \<and> shape r = [3]
     \<and> elem r [0] = - (1000000 / 1000001) \<and> elem r [1] = 1 \<and> elem r [2] = 2 + 1000000 / 1000001"
proof -
  let ?sc = "\<lparr>sc_norm = LayerNorm_init 3 None,
        sc_dropout = \<lparr>p_drop = 1 / 10, training = False, keep = \<lambda>_. True\<rparr>\<rparr>"
  let ?x = "\<lparr>shape = [3], data = [0, 1, 2 :: real]\<rparr>"
  let ?n = "\<lparr>shape = [3], data = [- (1000000 / 1000001), 0, 1000000 / 1000001 :: real]\<rparr>"
  have n: "LayerNorm_forward (sc_norm ?sc) ?x = Inr ?n"
    using LayerNorm_forward_example by simp
  have d: "Dropout_forward (sc_dropout ?sc) ?n = ?n" by (simp add: Dropout_forward_def)
  from SublayerConnection_forward_residual
    [THEN conjunct2, THEN conjunct2, of ?sc ?x ?n "\<lambda>t s. (s, Inr t)" "()" "()" ?n] n
  obtain r where r: "SublayerConnection_forward ?sc ?x (\<lambda>t s. (s, Inr t)) () = ((), Inr r)"
    "shape r = shape ?x"
    and e: "\<And>idx. valid_index (shape ?x) idx \<Longrightarrow>
               elem r idx = elem ?x idx + elem (Dropout_forward (sc_dropout ?sc) ?n) idx"
    by auto
  have "elem r [0] = - (1000000 / 1000001)"
    using e [of "[0]"] unfolding d by (simp add: valid_index_def elem_def)
  moreover have "elem r [1] = 1"
    using e [of "[1]"] unfolding d by (simp add: valid_index_def elem_def)
  moreover have "elem r [2] = 2 + 1000000 / 1000001"
    using e [of "[2]"] unfolding d by (simp add: valid_index_def elem_def)
  ultimately show ?thesis using r by auto
qed

section \<open>The decoder refines its specification\<close>

lemma SublayerConnection_forward_snd:
  "snd (SublayerConnection_forward sc x f s) = sublayer_spec sc x (\<lambda>n. snd (f n s))"
  by (auto simp: SublayerConnection_forward_def sublayer_spec_def bind_e_def
      split: sum.splits prod.splits)

lemma SublayerConnection_forward_fst:
  "fst (SublayerConnection_forward sc x f s)
    = (case LayerNorm_forward (sc_norm sc) x of Inl e \<Rightarrow> s | Inr n \<Rightarrow> fst (f n s))"
  by (auto simp: SublayerConnection_forward_def split: sum.splits prod.splits)

lemma snd_case_prod_keep: "snd (case p of (a, r) \<Rightarrow> (g a, r)) = snd p"
  by (cases p) simp

lemma fst_case_prod_keep: "fst (case p of (a, r) \<Rightarrow> (g a, r)) = g (fst p)"
  by (cases p) simp

lemma DecoderLayer_forward_spec:
  "snd (DecoderLayer_forward l x memory src_mask tgt_mask)
    = DecoderLayer_spec l x memory src_mask tgt_mask"
proof -
  let ?f0 = "\<lambda>x s. case MultiHeadedAttention_forward (dl_self_attn s) x x x tgt_mask of
                      (a, r) \<Rightarrow> (s\<lparr>dl_self_attn := a\<rparr>, r)"
  let ?f1 = "\<lambda>x s. case MultiHeadedAttention_forward (dl_src_attn s) x memory memory src_mask of
                      (a, r) \<Rightarrow> (s\<lparr>dl_src_attn := a\<rparr>, r)"
  let ?f2 = "\<lambda>x s. (s, PositionwiseFeedForward_forward (dl_feed_forward s) x)"
  show ?thesis
  proof (cases "nth_e (dl_sublayer l) 0")
    case (Inl e)
    then show ?thesis by (simp add: DecoderLayer_forward_def DecoderLayer_spec_def bind_e_def)
  next
    case sc0: (Inr sc0)
    obtain l1 r1 where st1: "SublayerConnection_forward sc0 x ?f0 l = (l1, r1)"
      by (cases "SublayerConnection_forward sc0 x ?f0 l")
    have r1: "sublayer_spec sc0 x
        (\<lambda>n. snd (MultiHeadedAttention_forward (dl_self_attn l) n n n tgt_mask)) = r1"
      using SublayerConnection_forward_snd [of sc0 x ?f0 l] st1 by (simp add: snd_case_prod_keep)
    have l1: "dl_sublayer l1 = dl_sublayer l" "dl_src_attn l1 = dl_src_attn l"
      "dl_feed_forward l1 = dl_feed_forward l"
      using SublayerConnection_forward_fst [of sc0 x ?f0 l] st1
      by (auto simp: fst_case_prod_keep split: sum.splits)
    show ?thesis
    proof (cases r1)
      case (Inl e)
      then show ?thesis
        using sc0 st1 r1
        by (simp add: DecoderLayer_forward_def DecoderLayer_spec_def bind_e_def)
    next
      case x1: (Inr x1)
      show ?thesis
      proof (cases "nth_e (dl_sublayer l) 1")
        case (Inl e)
        then show ?thesis
          using sc0 st1 r1 x1 l1
          by (simp add: DecoderLayer_forward_def DecoderLayer_spec_def bind_e_def)
      next
        case sc1: (Inr sc1)
        obtain l2 r2 where st2: "SublayerConnection_forward sc1 x1 ?f1 l1 = (l2, r2)"
          by (cases "SublayerConnection_forward sc1 x1 ?f1 l1")
        have r2: "sublayer_spec sc1 x1
            (\<lambda>n. snd (MultiHeadedAttention_forward (dl_src_attn l) n memory memory src_mask)) = r2"
          using SublayerConnection_forward_snd [of sc1 x1 ?f1 l1] st2 by (simp add: snd_case_prod_keep l1)
        have l2: "dl_sublayer l2 = dl_sublayer l" "dl_feed_forward l2 = dl_feed_forward l"
          using SublayerConnection_forward_fst [of sc1 x1 ?f1 l1] st2 l1
          by (auto simp: fst_case_prod_keep split: sum.splits)
        show ?thesis
        proof (cases r2)
          case (Inl e)
          then show ?thesis
            using sc0 st1 r1 x1 l1 sc1 st2 r2
            by (simp add: DecoderLayer_forward_def DecoderLayer_spec_def bind_e_def)
        next
          case x2: (Inr x2)
          show ?thesis
          proof (cases "nth_e (dl_sublayer l) 2")
            case (Inl e)
            then show ?thesis
              using sc0 st1 r1 x1 l1 sc1 st2 r2 x2 l2
              by (simp add: DecoderLayer_forward_def DecoderLayer_spec_def bind_e_def)
          next
            case sc2: (Inr sc2)
            have "snd (SublayerConnection_forward sc2 x2 ?f2 l2)
              = sublayer_spec sc2 x2 (PositionwiseFeedForward_forward (dl_feed_forward l))"
              using SublayerConnection_forward_snd [of sc2 x2 ?f2 l2] by (simp add: l2)
            then show ?thesis
              using sc0 st1 r1 x1 l1 sc1 st2 r2 x2 l2 sc2
              by (simp add: DecoderLayer_forward_def DecoderLayer_spec_def bind_e_def)
          qed
        qed
      qed
    qed
  qed
qed

lemma Decoder_layers_spec:
  "snd (Decoder_layers ls x memory src_mask tgt_mask)
    = Decoder_spec_layers ls x memory src_mask tgt_mask"
proof (induction ls arbitrary: x)
  case Nil
  then show ?case by simp
next
  case (Cons l ls)
  obtain l' r where st: "DecoderLayer_forward l x memory src_mask tgt_mask = (l', r)"
    by (cases "DecoderLayer_forward l x memory src_mask tgt_mask")
  have r: "DecoderLayer_spec l x memory src_mask tgt_mask = r"
    using DecoderLayer_forward_spec [of l x memory src_mask tgt_mask] st by simp
  show ?case
  proof (cases r)
    case (Inl e)
    then show ?thesis using st r by (simp add: bind_e_def)
  next
    case (Inr x')
    then show ?thesis
      using st r Cons.IH [of x'] by (auto simp: bind_e_def split: prod.splits)
  qed
qed

text \<open>
  Claim C5. \<open>DecoderLayer.forward\<close> applies its three sublayer connections in this order:
  self-attention whose query, key and value are all the (normalised) running input, masked
  by \<open>tgt_mask\<close>; attention whose query is the current representation and whose key and
  value are the encoder memory, masked by \<open>src_mask\<close>; the feed-forward network.
  \<open>Decoder.forward\<close> runs its \<open>N\<close> layers one after the other, each with the same memory,
  and applies the final LayerNorm once. Stated as a refinement: the results of the
  state-passing functions of the source are the compositions \<open>DecoderLayer_spec\<close> and
  \<open>Decoder_spec\<close>, and the constructor makes \<open>N\<close> copies of the layer.
\<close>

theorem Decoder_forward_order:
  "snd (DecoderLayer_forward l x memory src_mask tgt_mask)
     = DecoderLayer_spec l x memory src_mask tgt_mask
   \<and> snd (Decoder_forward dec x memory src_mask tgt_mask)
     = Decoder_spec dec x memory src_mask tgt_mask
   \<and> dec_layers (Decoder_init layer N) = replicate N layer"
proof (intro conjI)
  show "snd (DecoderLayer_forward l x memory src_mask tgt_mask)
     = DecoderLayer_spec l x memory src_mask tgt_mask"
    by (rule DecoderLayer_forward_spec)
next
  show "snd (Decoder_forward dec x memory src_mask tgt_mask)
     = Decoder_spec dec x memory src_mask tgt_mask"
    using Decoder_layers_spec [of "dec_layers dec" x memory src_mask tgt_mask]
    by (auto simp: Decoder_forward_def Decoder_spec_def split: prod.splits)
next
  show "dec_layers (Decoder_init layer N) = replicate N layer"
    by (simp add: Decoder_init_def clones_def)
qed

section \<open>Forward computation leaves the parameters unchanged\<close>

lemma MultiHeadedAttention_forward_frame:
  "fst (MultiHeadedAttention_forward m query key value msk)
    = m\<lparr>attn := attn (fst (MultiHeadedAttention_forward m query key value msk))\<rparr>"
  unfolding MultiHeadedAttention_forward_def
  by (auto split: sum.splits option.splits list.splits prod.splits)

lemma MultiHeadedAttention_forward_params:
  "MultiHeadedAttention_parameters (fst (MultiHeadedAttention_forward m query key value msk))
    = MultiHeadedAttention_parameters m"
proof -
  have "linears (fst (MultiHeadedAttention_forward m query key value msk)) = linears m"
    by (subst MultiHeadedAttention_forward_frame) simp
  then show ?thesis by (simp add: MultiHeadedAttention_parameters_def)
qed

lemma SublayerConnection_forward_preserves:
  assumes "P s" and "\<And>n. P (fst (f n s))"
  shows "P (fst (SublayerConnection_forward sc x f s))"
  using assms by (simp add: SublayerConnection_forward_fst split: sum.splits)

lemma EncoderLayer_forward_params:
  "EncoderLayer_parameters (fst (EncoderLayer_forward l x msk)) = EncoderLayer_parameters l"
proof -
  let ?P = "\<lambda>s. EncoderLayer_parameters s = EncoderLayer_parameters l"
  let ?f0 = "\<lambda>x s. case MultiHeadedAttention_forward (el_self_attn s) x x x msk of
                      (a, r) \<Rightarrow> (s\<lparr>el_self_attn := a\<rparr>, r)"
  let ?f1 = "\<lambda>x s. (s, PositionwiseFeedForward_forward (el_feed_forward s) x)"
  have p0: "?P (fst (?f0 n s))" if "?P s" for n s
    using that
    by (simp add: fst_case_prod_keep EncoderLayer_parameters_def MultiHeadedAttention_forward_params)
  have s0: "?P (fst (SublayerConnection_forward sc y ?f0 l))" for sc y
    by (rule SublayerConnection_forward_preserves) (simp_all add: p0)
  have s1: "?P (fst (SublayerConnection_forward sc y ?f1 s))" if "?P s" for sc y s
    by (rule SublayerConnection_forward_preserves) (simp_all add: that)
  show ?thesis
  proof (cases "nth_e (el_sublayer l) 0")
    case (Inl e)
    then show ?thesis by (simp add: EncoderLayer_forward_def)
  next
    case (Inr sc0)
    obtain l1 r1 where st: "SublayerConnection_forward sc0 x ?f0 l = (l1, r1)"
      by (cases "SublayerConnection_forward sc0 x ?f0 l")
    have l1: "?P l1" using s0 [of sc0 x] st by simp
    show ?thesis
      using Inr st l1 s1 [OF l1]
      by (auto simp: EncoderLayer_forward_def split: sum.splits)
  qed
qed

lemma DecoderLayer_forward_params:
  "DecoderLayer_parameters (fst (DecoderLayer_forward l x memory src_mask tgt_mask))
    = DecoderLayer_parameters l"
proof -
  let ?P = "\<lambda>s. DecoderLayer_parameters s = DecoderLayer_parameters l"
  let ?f0 = "\<lambda>x s. case MultiHeadedAttention_forward (dl_self_attn s) x x x tgt_mask of
                      (a, r) \<Rightarrow> (s\<lparr>dl_self_attn := a\<rparr>, r)"
  let ?f1 = "\<lambda>x s. case MultiHeadedAttention_forward (dl_src_attn s) x memory memory src_mask of
                      (a, r) \<Rightarrow> (s\<lparr>dl_src_attn := a\<rparr>, r)"
  let ?f2 = "\<lambda>x s. (s, PositionwiseFeedForward_forward (dl_feed_forward s) x)"
  have p0: "?P (fst (?f0 n s))" if "?P s" for n s
    using that
    by (simp add: fst_case_prod_keep DecoderLayer_parameters_def MultiHeadedAttention_forward_params)
  have p1: "?P (fst (?f1 n s))" if "?P s" for n s
    using that
    by (simp add: fst_case_prod_keep DecoderLayer_parameters_def MultiHeadedAttention_forward_params)
  have s0: "?P (fst (SublayerConnection_forward sc y ?f0 l))" for sc y
    by (rule SublayerConnection_forward_preserves) (simp_all add: p0)
  have s1: "?P (fst (SublayerConnection_forward sc y ?f1 s))" if "?P s" for sc y s
    by (rule SublayerConnection_forward_preserves) (simp_all add: that p1)
  have s2: "?P (fst (SublayerConnection_forward sc y ?f2 s))" if "?P s" for sc y s
    by (rule SublayerConnection_forward_preserves) (simp_all add: that)
  show ?thesis
  proof (cases "nth_e (dl_sublayer l) 0")
    case (Inl e)
    then show ?thesis by (simp add: DecoderLayer_forward_def)
  next
    case sc0: (Inr sc0)
    obtain l1 r1 where st1: "SublayerConnection_forward sc0 x ?f0 l = (l1, r1)"
      by (cases "SublayerConnection_forward sc0 x ?f0 l")
    have l1: "?P l1" using s0 [of sc0 x] st1 by simp
    show ?thesis
    proof (cases r1)
      case (Inl e)
      then show ?thesis using sc0 st1 l1 by (simp add: DecoderLayer_forward_def)
    next
      case x1: (Inr x1)
      show ?thesis
      proof (cases "nth_e (dl_sublayer l1) 1")
        case (Inl e)
        then show ?thesis using sc0 st1 l1 x1 by (simp add: DecoderLayer_forward_def)
      next
        case sc1: (Inr sc1)
        obtain l2 r2 where st2: "SublayerConnection_forward sc1 x1 ?f1 l1 = (l2, r2)"
          by (cases "SublayerConnection_forward sc1 x1 ?f1 l1")
        have l2: "?P l2" using s1 [OF l1, of sc1 x1] st2 by simp
        show ?thesis
          using sc0 st1 x1 sc1 st2 l2 s2 [OF l2]
          by (auto simp: DecoderLayer_forward_def split: sum.splits)
      qed
    qed
  qed
qed

lemma Encoder_layers_params:
  "map EncoderLayer_parameters (fst (Encoder_layers ls x msk)) = map EncoderLayer_parameters ls"
proof (induction ls arbitrary: x)
  case Nil
  then show ?case by simp
next
  case (Cons l ls)
  obtain l' r where st: "EncoderLayer_forward l x msk = (l', r)"
    by (cases "EncoderLayer_forward l x msk")
  have l': "EncoderLayer_parameters l' = EncoderLayer_parameters l"
    using EncoderLayer_forward_params [of l x msk] st by simp
  show ?case
  proof (cases r)
    case (Inl e)
    then show ?thesis using st l' by simp
  next
    case (Inr x')
    then show ?thesis using st l' Cons.IH [of x'] by (auto split: prod.splits)
  qed
qed

lemma Decoder_layers_params:
  "map DecoderLayer_parameters (fst (Decoder_layers ls x memory src_mask tgt_mask))
    = map DecoderLayer_parameters ls"
proof (induction ls arbitrary: x)
  case Nil
  then show ?case by simp
next
  case (Cons l ls)
  obtain l' r where st: "DecoderLayer_forward l x memory src_mask tgt_mask = (l', r)"
    by (cases "DecoderLayer_forward l x memory src_mask tgt_mask")
  have l': "DecoderLayer_parameters l' = DecoderLayer_parameters l"
    using DecoderLayer_forward_params [of l x memory src_mask tgt_mask] st by simp
  show ?case
  proof (cases r)
    case (Inl e)
    then show ?thesis using st l' by simp
  next
    case (Inr x')
    then show ?thesis using st l' Cons.IH [of x'] by (auto split: prod.splits)
  qed
qed

lemma Encoder_forward_params:
  "Encoder_parameters (fst (Encoder_forward enc x msk)) = Encoder_parameters enc"
  using Encoder_layers_params [of "enc_layers enc" x msk]
  by (auto simp: Encoder_forward_def Encoder_parameters_def split: prod.splits)

lemma Decoder_forward_params:
  "Decoder_parameters (fst (Decoder_forward dec x memory src_mask tgt_mask)) = Decoder_parameters dec"
  using Decoder_layers_params [of "dec_layers dec" x memory src_mask tgt_mask]
  by (auto simp: Decoder_forward_def Decoder_parameters_def split: prod.splits)

lemma encode_params:
  "EncoderDecoder_parameters (fst (encode model src src_mask)) = EncoderDecoder_parameters model"
proof (cases "Sequential_forward (src_embed model) src")
  case (Inl e)
  then show ?thesis by (simp add: encode_def)
next
  case (Inr x)
  obtain enc r where st: "Encoder_forward (encoder model) x src_mask = (enc, r)"
    by (cases "Encoder_forward (encoder model) x src_mask")
  have "Encoder_parameters enc = Encoder_parameters (encoder model)"
    using Encoder_forward_params [of "encoder model" x src_mask] st by simp
  then show ?thesis using Inr st by (simp add: encode_def EncoderDecoder_parameters_def)
qed

lemma decode_params:
  "EncoderDecoder_parameters (fst (decode model memory src_mask tgt tgt_mask))
    = EncoderDecoder_parameters model"
proof (cases "Sequential_forward (tgt_embed model) tgt")
  case (Inl e)
  then show ?thesis by (simp add: decode_def)
next
  case (Inr x)
  obtain dec r where st: "Decoder_forward (decoder model) x memory src_mask tgt_mask = (dec, r)"
    by (cases "Decoder_forward (decoder model) x memory src_mask tgt_mask")
  have "Decoder_parameters dec = Decoder_parameters (decoder model)"
    using Decoder_forward_params [of "decoder model" x memory src_mask tgt_mask] st by simp
  then show ?thesis using Inr st by (simp add: decode_def EncoderDecoder_parameters_def)
qed

lemma EncoderDecoder_forward_params:
  "EncoderDecoder_parameters (fst (EncoderDecoder_forward model src tgt src_mask tgt_mask))
    = EncoderDecoder_parameters model"
proof -
  obtain m1 r1 where st: "encode model src src_mask = (m1, r1)"
    by (cases "encode model src src_mask")
  have m1: "EncoderDecoder_parameters m1 = EncoderDecoder_parameters model"
    using encode_params [of model src src_mask] st by simp
  show ?thesis
  proof (cases r1)
    case (Inl e)
    then show ?thesis using st m1 by (simp add: EncoderDecoder_forward_def)
  next
    case (Inr memory)
    then show ?thesis
      using st m1 decode_params [of m1 memory src_mask tgt tgt_mask]
      by (simp add: EncoderDecoder_forward_def)
  qed
qed

text \<open>
  Claim C8. No forward computation writes a learned parameter. The only attribute that any
  \<open>forward\<close> of the notebook assigns is \<open>attn\<close> of \<open>MultiHeadedAttention\<close>, so the module
  returned by \<open>MultiHeadedAttention.forward\<close> is the given one with \<open>attn\<close> replaced, and
  the parameter lists of the modules returned by the layers, the stacks and the full model
  are those of the modules given, also when the call raises. \<open>LayerNorm.forward\<close>,
  \<open>attention\<close>, \<open>PositionwiseFeedForward.forward\<close>, \<open>Embeddings.forward\<close>,
  \<open>PositionalEncoding.forward\<close> and \<open>Generator.forward\<close> assign nothing: in the model they
  are functions from the module and the input to the result alone.
\<close>

theorem forward_leaves_parameters_unchanged:
  "fst (MultiHeadedAttention_forward m query key value msk)
     = m\<lparr>attn := attn (fst (MultiHeadedAttention_forward m query key value msk))\<rparr>
   \<and> MultiHeadedAttention_parameters (fst (MultiHeadedAttention_forward m query key value msk))
     = MultiHeadedAttention_parameters m
   \<and> EncoderLayer_parameters (fst (EncoderLayer_forward el x msk)) = EncoderLayer_parameters el
   \<and> DecoderLayer_parameters (fst (DecoderLayer_forward dl x memory src_mask tgt_mask))
     = DecoderLayer_parameters dl
   \<and> Encoder_parameters (fst (Encoder_forward enc x msk)) = Encoder_parameters enc
   \<and> Decoder_parameters (fst (Decoder_forward dec x memory src_mask tgt_mask))
     = Decoder_parameters dec
   \<and> EncoderDecoder_parameters (fst (encode model src src_mask)) = EncoderDecoder_parameters model
   \<and> EncoderDecoder_parameters (fst (decode model memory src_mask tgt tgt_mask))
     = EncoderDecoder_parameters model
   \<and> EncoderDecoder_parameters (fst (EncoderDecoder_forward model src tgt src_mask tgt_mask))
     = EncoderDecoder_parameters model"
  using MultiHeadedAttention_forward_frame [of m query key "value" msk]
  by (simp only: simp_thms MultiHeadedAttention_forward_params EncoderLayer_forward_params
      DecoderLayer_forward_params Encoder_forward_params Decoder_forward_params encode_params
      decode_params EncoderDecoder_forward_params)

end
